theory Spec2Isabelle
  imports Complex_Main "HOL-Library.Multiset" "HOL-Library.Sublist"
begin

section \<open>JavaScript values and strings\<close>

text \<open>
  The registry answers with JSON, so a field of a raw record is a JSON value or is absent
  (\<open>Undefined\<close>). Numbers are restricted to integers; strings are lists of code units.
\<close>

datatype jsval =
    Undefined
  | Null
  | Bool bool
  | Num int
  | Str string
  | Arr "jsval list"
  | Obj "(string \<times> jsval) list"

text \<open>Truthiness, as \<open>&&\<close>, \<open>||\<close> and \<open>if\<close> test it.\<close>

fun truthy :: "jsval \<Rightarrow> bool" where
  "truthy Undefined = False"
| "truthy Null = False"
| "truthy (Bool b) = b"
| "truthy (Num n) = (n \<noteq> 0)"
| "truthy (Str s) = (s \<noteq> [])"
| "truthy (Arr xs) = True"
| "truthy (Obj kvs) = True"

text \<open>Decimal rendering of an integer, as template literals and \<open>String(n)\<close> produce it.\<close>

fun decimal :: "nat \<Rightarrow> string" where
  "decimal n =
     (if n < 10 then [''0123456789'' ! n]
      else decimal (n div 10) @ [''0123456789'' ! (n mod 10)])"

declare decimal.simps [simp del]

definition show_int :: "int \<Rightarrow> string" where
  "show_int i = (if i < 0 then CHR ''-'' # decimal (nat (- i)) else decimal (nat i))"

text \<open>\<open>Array.prototype.join\<close> on an array of strings.\<close>

fun join :: "string \<Rightarrow> string list \<Rightarrow> string" where
  "join sep [] = []"
| "join sep [x] = x"
| "join sep (x # y # ys) = x @ sep @ join sep (y # ys)"

fun rendered :: "jsval \<Rightarrow> bool" where
  "rendered Undefined = False"
| "rendered Null = False"
| "rendered v = True"

text \<open>\<open>String(v)\<close>: an array joins its elements with a comma, null and undefined elements as
  the empty string.\<close>

fun js_String :: "jsval \<Rightarrow> string" where
  "js_String Undefined = ''undefined''"
| "js_String Null = ''null''"
| "js_String (Bool b) = (if b then ''true'' else ''false'')"
| "js_String (Num n) = show_int n"
| "js_String (Str s) = s"
| "js_String (Arr xs) = join '','' (map (\<lambda>x. if rendered x then js_String x else []) xs)"
| "js_String (Obj kvs) = ''[object Object]''"

text \<open>\<open>s.includes(sub)\<close>: \<open>sub\<close> occurs in \<open>s\<close> as a contiguous run. Case-sensitive.\<close>

fun js_includes :: "string \<Rightarrow> string \<Rightarrow> bool" where
  "js_includes [] sub = (sub = [])"
| "js_includes (c # cs) sub = (prefix sub (c # cs) \<or> js_includes cs sub)"

text \<open>\<open>s.split(' ')[0]\<close>: the text before the first space (all of \<open>s\<close> when it has none).\<close>

definition firstToken :: "string \<Rightarrow> string" where
  "firstToken s = takeWhile (\<lambda>c. c \<noteq> CHR '' '') s"

text \<open>\<open>toLowerCase\<close> and \<open>toUpperCase\<close> on the ASCII letters.\<close>

definition lowerChar :: "char \<Rightarrow> char" where
  "lowerChar c =
     (case map_of (zip ''ABCDEFGHIJKLMNOPQRSTUVWXYZ'' ''abcdefghijklmnopqrstuvwxyz'') c of
        Some l \<Rightarrow> l | None \<Rightarrow> c)"

definition upperChar :: "char \<Rightarrow> char" where
  "upperChar c =
     (case map_of (zip ''abcdefghijklmnopqrstuvwxyz'' ''ABCDEFGHIJKLMNOPQRSTUVWXYZ'') c of
        Some u \<Rightarrow> u | None \<Rightarrow> c)"

definition toLowerCase :: "string \<Rightarrow> string" where
  "toLowerCase s = map lowerChar s"

definition toUpperCase :: "string \<Rightarrow> string" where
  "toUpperCase s = map upperChar s"

text \<open>\<open>trim\<close>: white space is dropped at both ends. Only the ASCII white space is
  modelled; the source also strips the Unicode spaces, so its result is never longer.\<close>

definition isSpace :: "char \<Rightarrow> bool" where
  "isSpace c = (c \<in> set [CHR '' '', CHR 0x09, CHR 0x0A, CHR 0x0B, CHR 0x0C, CHR 0x0D])"

definition trim :: "string \<Rightarrow> string" where
  "trim s = rev (dropWhile isSpace (rev (dropWhile isSpace s)))"

section \<open>Sorting with a comparator\<close>

text \<open>
  \<open>Array.prototype.sort\<close> is stable. For a consistent comparator the result is the one
  list that a stable insertion sort computes: each element is placed before the first
  element it does not follow.
\<close>

fun insort_cmp :: "('a \<Rightarrow> 'a \<Rightarrow> int) \<Rightarrow> 'a \<Rightarrow> 'a list \<Rightarrow> 'a list" where
  "insort_cmp cmp x [] = [x]"
| "insort_cmp cmp x (y # ys) =
     (if cmp x y \<le> 0 then x # y # ys else y # insort_cmp cmp x ys)"

definition js_sort :: "('a \<Rightarrow> 'a \<Rightarrow> int) \<Rightarrow> 'a list \<Rightarrow> 'a list" where
  "js_sort cmp xs = foldr (insort_cmp cmp) xs []"

section \<open>Record normalizer: parseRecord\<close>

text \<open>The document types of the registry client, and the set a title search asks for.\<close>

definition DEED :: string where "DEED = ''(D) DEED''"
definition MORTGAGE :: string where "MORTGAGE = ''(MTG) MORTGAGE''"
definition SATISFACTION :: string where "SATISFACTION = ''(SAT) SATISFACTION''"
definition LIEN :: string where "LIEN = ''(LN) LIEN''"
definition LIS_PENDENS :: string where "LIS_PENDENS = ''(LP) LIS PENDENS''"
definition EASEMENT :: string where "EASEMENT = ''(EAS) EASEMENT''"
definition RESTRICTIONS :: string where "RESTRICTIONS = ''(RES) RESTRICTIONS''"
definition JUDGMENT :: string where "JUDGMENT = ''(JUD) JUDGMENT''"
definition RELEASE :: string where "RELEASE = ''(REL) RELEASE''"
definition ASSIGNMENT :: string where "ASSIGNMENT = ''(ASG) ASSIGNMENT''"
definition TAX_DEED :: string where "TAX_DEED = ''(TAXDEED) TAX DEED''"

definition TITLE_DOC_TYPES :: "string list" where
  "TITLE_DOC_TYPES =
     [DEED, MORTGAGE, SATISFACTION, LIEN, LIS_PENDENS, EASEMENT, RESTRICTIONS, JUDGMENT,
      RELEASE, ASSIGNMENT, TAX_DEED]"

text \<open>
  The first match of the pattern \<open>\\(([^)]+)\\)\<close>, group 1: at the leftmost opening parenthesis
  that is followed by a non-empty run of characters other than the closing parenthesis and
  then by a closing parenthesis, the run.
\<close>

fun firstParen :: "string \<Rightarrow> string option" where
  "firstParen [] = None"
| "firstParen (c # cs) =
     (if c = CHR ''(''
         \<and> takeWhile (\<lambda>x. x \<noteq> CHR '')'') cs \<noteq> []
         \<and> dropWhile (\<lambda>x. x \<noteq> CHR '')'') cs \<noteq> []
      then Some (takeWhile (\<lambda>x. x \<noteq> CHR '')'') cs)
      else firstParen cs)"

text \<open>
  In the words of the specification: \<open>t\<close> is a substring of \<open>s\<close> enclosed in parentheses,
  after the text \<open>pre\<close> and before the text \<open>post\<close>.
\<close>

definition parenthesized :: "string \<Rightarrow> string \<Rightarrow> string \<Rightarrow> string \<Rightarrow> bool" where
  "parenthesized s pre t post =
     (s = pre @ [CHR ''(''] @ t @ [CHR '')''] @ post \<and> t \<noteq> [] \<and> CHR '')'' \<notin> set t)"

record raw_record =
  Instrument :: jsval
  PartiesOne :: jsval
  PartiesTwo :: jsval
  RecordDate :: jsval
  DocType :: jsval
  Legal :: jsval
  SalesPrice :: jsval
  PageCount :: jsval
  ID :: jsval
  UUID :: jsval
  BookNum :: jsval
  PageNum :: jsval

text \<open>The object \<open>parseRecord\<close> returns; every field is the raw value or derived from it.\<close>

record parsed_record =
  p_instrumentNumber :: jsval
  p_grantors :: jsval
  p_grantees :: jsval
  p_recordDate :: string
  p_recordTimestamp :: jsval
  p_docType :: jsval
  p_docTypeShort :: jsval
  p_legalDescription :: jsval
  p_salesPrice :: jsval
  p_pageCount :: jsval
  p_documentId :: jsval
  p_uuid :: jsval
  p_bookNum :: jsval
  p_pageNum :: jsval

datatype error = TypeError

text \<open>
  \<open>record.DocType?.match(...)?.[1] || record.DocType\<close>. The optional chain stops at an
  absent \<open>DocType\<close>; a string is matched; any other value has no \<open>match\<close> method, and
  calling it is a TypeError.
\<close>

fun docTypeShortOf :: "jsval \<Rightarrow> error + jsval" where
  "docTypeShortOf Undefined = Inr Undefined"
| "docTypeShortOf Null = Inr Null"
| "docTypeShortOf (Str s) =
     (case firstParen s of Some t \<Rightarrow> Inr (Str t) | None \<Rightarrow> Inr (Str s))"
| "docTypeShortOf v = Inl TypeError"

text \<open>\<open>a || b\<close> on values.\<close>

definition js_or :: "jsval \<Rightarrow> jsval \<Rightarrow> jsval" where
  "js_or a b = (if truthy a then a else b)"

text \<open>
  \<open>formatDate\<close> renders the record time in the locale and time zone of the host; it is a
  parameter here. It does not throw on a JSON value.
\<close>

definition parseRecord :: "(jsval \<Rightarrow> string) \<Rightarrow> raw_record \<Rightarrow> error + parsed_record" where
  "parseRecord formatDate record =
     (case docTypeShortOf (DocType record) of
        Inl e \<Rightarrow> Inl e
      | Inr short \<Rightarrow>
          Inr \<lparr> p_instrumentNumber = Instrument record,
                p_grantors = js_or (PartiesOne record) (Arr []),
                p_grantees = js_or (PartiesTwo record) (Arr []),
                p_recordDate = formatDate (RecordDate record),
                p_recordTimestamp = RecordDate record,
                p_docType = DocType record,
                p_docTypeShort = short,
                p_legalDescription = Legal record,
                p_salesPrice = SalesPrice record,
                p_pageCount = PageCount record,
                p_documentId = ID record,
                p_uuid = UUID record,
                p_bookNum = BookNum record,
                p_pageNum = PageNum record \<rparr>)"

section \<open>Documents\<close>

text \<open>
  The record each text parser returns. A field that is null in the source is \<open>None\<close>.
  Field names shared by several source objects carry a prefix here.
\<close>

record mortgage_info =
  principalAmount :: "real option"
  lenderName :: "string option"
  instrumentReferences :: "string list"
  isModification :: bool
  isRefinance :: bool
  maturityDate :: "string option"
  interestRate :: "real option"
  m_propertyAddress :: "string option"
  m_confidence :: string

record deed_info =
  consideration :: "real option"
  d_legalDescription :: "string option"
  d_propertyAddress :: "string option"
  deedType :: "string option"
  d_grantors :: "string list"
  d_grantees :: "string list"
  d_confidence :: string

record satisfaction_info =
  satisfiedInstrumentNumber :: "string option"
  satisfiedBookPage :: "string option"
  originalLender :: "string option"
  originalAmount :: "real option"
  satisfiedDate :: "string option"
  s_confidence :: string

datatype extracted =
    MortgageData mortgage_info
  | DeedData deed_info
  | SatisfactionData satisfaction_info

text \<open>
  A Document of the data model, as the classifier, the chain builder, the matcher and the
  flag engine read it: the record time is an integer and the two type labels are strings.
  What \<open>parseRecord\<close> returns for a record that lacks such a field is not a Document; the
  flag engine on those objects is \<open>identifyFlagsOnParsed\<close> below.
\<close>

record document =
  instrumentNumber :: jsval
  grantors :: "string list"
  grantees :: "string list"
  recordDate :: string
  recordTimestamp :: int
  docType :: string
  docTypeShort :: string
  legalDescription :: jsval
  salesPrice :: jsval
  pageCount :: jsval
  documentId :: jsval
  uuid :: jsval
  bookNum :: jsval
  pageNum :: jsval
  extractedData :: "extracted option"

section \<open>Classifier: groupByDocType\<close>

datatype bucket =
    Deeds | Mortgages | Satisfactions | Liens | LisPendens | Easements
  | Restrictions | Judgments | Releases | Assignments | Modifications | Other

definition allBuckets :: "bucket list" where
  "allBuckets =
     [Deeds, Mortgages, Satisfactions, Liens, LisPendens, Easements,
      Restrictions, Judgments, Releases, Assignments, Modifications, Other]"

text \<open>The \<open>switch\<close> on the short code: strict equality with each label, else the default.\<close>

definition bucketOf :: "string \<Rightarrow> bucket" where
  "bucketOf t =
     (if t = ''D'' then Deeds
      else if t = ''MTG'' \<or> t = ''MTGREV'' \<or> t = ''MTGNDOC'' \<or> t = ''MTGNT'' \<or> t = ''MTGNIT''
        then Mortgages
      else if t = ''SAT'' \<or> t = ''SATCORPTX'' then Satisfactions
      else if t = ''LN'' \<or> t = ''MEDLN'' \<or> t = ''LNCORPTX'' then Liens
      else if t = ''LP'' then LisPendens
      else if t = ''EAS'' then Easements
      else if t = ''RES'' then Restrictions
      else if t = ''JUD'' then Judgments
      else if t = ''REL'' \<or> t = ''RELLP'' then Releases
      else if t = ''ASG'' \<or> t = ''ASGT'' \<or> t = ''ASINT'' then Assignments
      else if t = ''MOD'' then Modifications
      else Other)"

text \<open>The codes that have a \<open>case\<close> label.\<close>

definition tableCodes :: "string list" where
  "tableCodes =
     [''D'', ''MTG'', ''MTGREV'', ''MTGNDOC'', ''MTGNT'', ''MTGNIT'', ''SAT'', ''SATCORPTX'',
      ''LN'', ''MEDLN'', ''LNCORPTX'', ''LP'', ''EAS'', ''RES'', ''JUD'', ''REL'', ''RELLP'',
      ''ASG'', ''ASGT'', ''ASINT'', ''MOD'']"

text \<open>The groups object has the twelve fixed keys, each holding an array.\<close>

type_synonym groups = "bucket \<Rightarrow> document list"

definition emptyGroups :: groups where
  "emptyGroups = (\<lambda>b. [])"

definition pushDoc :: "groups \<Rightarrow> document \<Rightarrow> groups" where
  "pushDoc g doc = g(bucketOf (docTypeShort doc) := g (bucketOf (docTypeShort doc)) @ [doc])"

definition newestFirst :: "document \<Rightarrow> document \<Rightarrow> int" where
  "newestFirst a b = recordTimestamp b - recordTimestamp a"

definition groupByDocType :: "document list \<Rightarrow> groups" where
  "groupByDocType documents =
     (let groups = foldl pushDoc emptyGroups documents
      in (\<lambda>key. js_sort newestFirst (groups key)))"

section \<open>Chain of title: buildChainOfTitle\<close>

record chain_entry =
  sequence :: nat
  date :: string
  c_instrumentNumber :: jsval
  c_grantors :: string
  c_grantees :: string
  c_salesPrice :: jsval
  c_legalDescription :: jsval
  c_documentId :: jsval

definition oldestFirst :: "document \<Rightarrow> document \<Rightarrow> int" where
  "oldestFirst a b = recordTimestamp a - recordTimestamp b"

definition chainEntry :: "document \<Rightarrow> nat \<Rightarrow> chain_entry" where
  "chainEntry deed index =
     \<lparr> sequence = index + 1,
       date = recordDate deed,
       c_instrumentNumber = instrumentNumber deed,
       c_grantors = join '', '' (grantors deed),
       c_grantees = join '', '' (grantees deed),
       c_salesPrice = salesPrice deed,
       c_legalDescription = legalDescription deed,
       c_documentId = documentId deed \<rparr>"

definition buildChainOfTitle :: "document list \<Rightarrow> chain_entry list" where
  "buildChainOfTitle deeds =
     (if length deeds = 0 then []
      else (let sorted = js_sort oldestFirst deeds
            in map (\<lambda>(deed, index). chainEntry deed index) (zip sorted [0 ..< length sorted])))"

section \<open>Risk flags: identifyFlags\<close>

text \<open>
  The flag engine on Documents of the data model. With a string \<open>docType\<close> the call
  \<open>d.docType.includes('TAX')\<close> cannot fail, and the function is total.
\<close>

record flag =
  severity :: string
  type :: string
  message :: string
  documents :: "document list"

text \<open>\<open>Math.round\<close>: the nearest integer, a half rounded up.\<close>

definition Math_round :: "real \<Rightarrow> int" where
  "Math_round x = \<lfloor>x + 1 / 2\<rfloor>"

definition identifyFlags :: "document list \<Rightarrow> flag list" where
  "identifyFlags docs =
     (let flags0 = [];
          lisPendens = filter (\<lambda>d. docTypeShort d = ''LP'') docs;
          flags1 =
            (if length lisPendens > 0
             then flags0 @
               [\<lparr> severity = ''high'', type = ''lis_pendens'',
                  message = ''Found '' @ show_int (int (length lisPendens))
                            @ '' lis pendens (pending litigation)'',
                  documents = lisPendens \<rparr>]
             else flags0);
          judgments = filter (\<lambda>d. docTypeShort d = ''JUD'') docs;
          flags2 =
            (if length judgments > 0
             then flags1 @
               [\<lparr> severity = ''high'', type = ''judgment'',
                  message = ''Found '' @ show_int (int (length judgments)) @ '' judgment(s)'',
                  documents = judgments \<rparr>]
             else flags1);
          taxLiens =
            filter (\<lambda>d. docTypeShort d = ''LNCORPTX'' \<or> js_includes (docType d) ''TAX'') docs;
          flags3 =
            (if length taxLiens > 0
             then flags2 @
               [\<lparr> severity = ''high'', type = ''tax_lien'',
                  message = ''Found '' @ show_int (int (length taxLiens))
                            @ '' tax-related lien(s)'',
                  documents = taxLiens \<rparr>]
             else flags2);
          deeds = filter (\<lambda>d. docTypeShort d = ''D'') docs
      in if length deeds \<ge> 2
         then (let sorted = js_sort newestFirst deeds;
                   recentDeed = sorted ! 0;
                   previousDeed = sorted ! 1;
                   daysBetween =
                     real_of_int (recordTimestamp recentDeed - recordTimestamp previousDeed)
                       / 86400
               in if daysBetween < 90
                  then flags3 @
                    [\<lparr> severity = ''medium'', type = ''quick_flip'',
                       message = ''Property sold twice within ''
                                 @ show_int (Math_round daysBetween) @ '' days'',
                       documents = [recentDeed, previousDeed] \<rparr>]
                  else flags3)
         else flags3)"


section \<open>Summary: generateSummary\<close>

text \<open>An entry of \<open>satisfiedList\<close>; \<open>confidence\<close> and the match method or reasons are
  absent in some versions of the analysis.\<close>

record satisfied_entry =
  e_mortgage :: document
  e_satisfaction :: document
  e_confidence :: "string option"
  e_matchMethod :: "string option"
  e_matchReasons :: "string list option"

record mortgage_analysis =
  total :: nat
  satisfied :: nat
  "open" :: "document list"
  satisfiedList :: "satisfied_entry list"
  a_unmatchedSatisfactions :: "document list option"

record summary =
  totalDocuments :: nat
  chainOfTitleLength :: nat
  totalMortgages :: nat
  satisfiedMortgages :: nat
  openMortgages :: nat
  openLiens :: nat
  highSeverityFlags :: nat
  mediumSeverityFlags :: nat
  riskLevel :: string

definition generateSummary ::
  "document list \<Rightarrow> chain_entry list \<Rightarrow> mortgage_analysis \<Rightarrow> document list \<Rightarrow> flag list
     \<Rightarrow> summary" where
  "generateSummary docs chainOfTitle mortgageAnalysis liens flags =
     (let highFlags = filter (\<lambda>f. severity f = ''high'') flags;
          mediumFlags = filter (\<lambda>f. severity f = ''medium'') flags
      in \<lparr> totalDocuments = length docs,
           chainOfTitleLength = length chainOfTitle,
           totalMortgages = total mortgageAnalysis,
           satisfiedMortgages = satisfied mortgageAnalysis,
           openMortgages = length (open mortgageAnalysis),
           openLiens = length liens,
           highSeverityFlags = length highFlags,
           mediumSeverityFlags = length mediumFlags,
           riskLevel =
             (if length highFlags > 0 then ''HIGH''
              else if length mediumFlags > 0 \<or> length liens > 0
                      \<or> length (open mortgageAnalysis) > 1
                   then ''MEDIUM'' else ''LOW'') \<rparr>)"

section \<open>The flag engine on the output of parseRecord\<close>

text \<open>
  \<open>performTitleSearch\<close> passes \<open>results.map(parseRecord)\<close> to \<open>identifyFlags\<close>. The map
  stops at the first record on which \<open>parseRecord\<close> raises.
\<close>

fun mapE :: "('a \<Rightarrow> error + 'b) \<Rightarrow> 'a list \<Rightarrow> error + 'b list" where
  "mapE f [] = Inr []"
| "mapE f (x # xs) =
     (case f x of
        Inl e \<Rightarrow> Inl e
      | Inr y \<Rightarrow> (case mapE f xs of Inl e \<Rightarrow> Inl e | Inr ys \<Rightarrow> Inr (y # ys)))"

text \<open>\<open>Array.prototype.filter\<close> with a callback that may raise.\<close>

fun filterE :: "('a \<Rightarrow> error + bool) \<Rightarrow> 'a list \<Rightarrow> error + 'a list" where
  "filterE p [] = Inr []"
| "filterE p (x # xs) =
     (case p x of
        Inl e \<Rightarrow> Inl e
      | Inr b \<Rightarrow> (case filterE p xs of
                    Inl e \<Rightarrow> Inl e
                  | Inr ys \<Rightarrow> Inr (if b then x # ys else ys)))"

text \<open>
  The method call \<open>v.includes(sub)\<close>: a string searches for the substring, an array for an
  element equal to the string; undefined and null have no properties, and no other JSON
  value has an \<open>includes\<close> method, so the call is a TypeError.
\<close>

fun includesCall :: "jsval \<Rightarrow> string \<Rightarrow> error + bool" where
  "includesCall (Str s) sub = Inr (js_includes s sub)"
| "includesCall (Arr xs) sub = Inr (Str sub \<in> set xs)"
| "includesCall v sub = Inl TypeError"

text \<open>The callback of the tax-lien filter:
  \<open>d.docTypeShort === 'LNCORPTX' || d.docType.includes('TAX')\<close>.\<close>

definition taxLienTest :: "parsed_record \<Rightarrow> error + bool" where
  "taxLienTest d =
     (if p_docTypeShort d = Str ''LNCORPTX'' then Inr True
      else includesCall (p_docType d) ''TAX'')"

text \<open>A parsed record whose fields have the types of the data model, as a Document.\<close>

fun strOf :: "jsval \<Rightarrow> string option" where
  "strOf (Str s) = Some s"
| "strOf v = None"

fun numOf :: "jsval \<Rightarrow> int option" where
  "numOf (Num n) = Some n"
| "numOf v = None"

fun namesOf :: "jsval \<Rightarrow> string list option" where
  "namesOf (Arr xs) = those (map strOf xs)"
| "namesOf v = None"

definition asDocument :: "parsed_record \<Rightarrow> document option" where
  "asDocument p =
     (case namesOf (p_grantors p) of None \<Rightarrow> None | Some gs1 \<Rightarrow>
      case namesOf (p_grantees p) of None \<Rightarrow> None | Some gs2 \<Rightarrow>
      case numOf (p_recordTimestamp p) of None \<Rightarrow> None | Some t \<Rightarrow>
      case strOf (p_docType p) of None \<Rightarrow> None | Some label \<Rightarrow>
      case strOf (p_docTypeShort p) of None \<Rightarrow> None | Some code \<Rightarrow>
        Some \<lparr> instrumentNumber = p_instrumentNumber p, grantors = gs1, grantees = gs2,
               recordDate = p_recordDate p, recordTimestamp = t, docType = label,
               docTypeShort = code, legalDescription = p_legalDescription p,
               salesPrice = p_salesPrice p, pageCount = p_pageCount p,
               documentId = p_documentId p, uuid = p_uuid p, bookNum = p_bookNum p,
               pageNum = p_pageNum p, extractedData = None \<rparr>)"

text \<open>
  \<open>identifyFlags\<close> on parsed records. The first two filters compare short codes and cannot
  raise; the tax-lien filter is the first step that can, and what it raises leaves the
  function. When it does not raise and every record is a Document of the data model, the
  flags are those of \<open>identifyFlags\<close> above. \<open>None\<close>: the flags are outside this model (a
  record time that is not a number, say).
\<close>

definition identifyFlagsOnParsed :: "parsed_record list \<Rightarrow> (error + flag list) option" where
  "identifyFlagsOnParsed parsed =
     (case filterE taxLienTest parsed of
        Inl e \<Rightarrow> Some (Inl e)
      | Inr taxLiens \<Rightarrow>
          (case those (map asDocument parsed) of
             None \<Rightarrow> None
           | Some docs \<Rightarrow> Some (Inr (identifyFlags docs))))"

text \<open>\<open>identifyFlags(results.map(parseRecord))\<close>.\<close>

definition flagsOfSearch :: "(jsval \<Rightarrow> string) \<Rightarrow> raw_record list \<Rightarrow> (error + flag list) option" where
  "flagsOfSearch formatDate results =
     (case mapE (parseRecord formatDate) results of
        Inl e \<Rightarrow> Some (Inl e)
      | Inr parsed \<Rightarrow> identifyFlagsOnParsed parsed)"

section \<open>Text-signal extractor: the three parsers\<close>

text \<open>Truthiness of a nullable string and of a nullable number.\<close>

definition truthyStr :: "string option \<Rightarrow> bool" where
  "truthyStr v = (case v of None \<Rightarrow> False | Some s \<Rightarrow> s \<noteq> [])"

definition truthyNum :: "real option \<Rightarrow> bool" where
  "truthyNum v = (case v of None \<Rightarrow> False | Some a \<Rightarrow> a \<noteq> 0)"

definition tier :: "nat \<Rightarrow> string" where
  "tier confidenceScore =
     (if confidenceScore \<ge> 4 then ''high'' else if confidenceScore \<ge> 2 then ''medium'' else ''low'')"

text \<open>
  The pattern rules of a parser are regular-expression loops over the text; each is a
  parameter here, a function of the text (or of the upper-cased text) that gives the value
  the loop leaves in the field. The guard, the order of the assignments and the confidence
  score are those of the source.
\<close>

record mortgage_rules =
  principalRule :: "string \<Rightarrow> real option"
  lenderRule :: "string \<Rightarrow> string option"
  referenceRule :: "string \<Rightarrow> string list"
  modificationTest :: "string \<Rightarrow> bool"
  refinanceTest :: "string \<Rightarrow> bool"
  rateRule :: "string \<Rightarrow> real option"
  maturityRule :: "string \<Rightarrow> string option"

definition parseMortgageText :: "mortgage_rules \<Rightarrow> string \<Rightarrow> mortgage_info" where
  "parseMortgageText R text =
     (let info = \<lparr> principalAmount = None, lenderName = None, instrumentReferences = [],
                   isModification = False, isRefinance = False, maturityDate = None,
                   interestRate = None, m_propertyAddress = None, m_confidence = ''low'' \<rparr>
      in if text = [] \<or> length (trim text) < 50 then info
         else (let normalizedText = toUpperCase text;
                   info = info \<lparr> principalAmount := principalRule R text \<rparr>;
                   info = info \<lparr> lenderName := lenderRule R text \<rparr>;
                   info = info \<lparr> instrumentReferences := referenceRule R normalizedText \<rparr>;
                   info = info \<lparr> isModification := modificationTest R normalizedText \<rparr>;
                   info = info \<lparr> isRefinance := refinanceTest R normalizedText \<rparr>;
                   info = info \<lparr> interestRate := rateRule R text \<rparr>;
                   info = info \<lparr> maturityDate := maturityRule R text \<rparr>;
                   confidenceScore =
                     (if truthyNum (principalAmount info) then 3 else 0)
                     + (if truthyStr (lenderName info) then 2 else 0)
                     + (if truthyNum (interestRate info) then 1 else 0)
                     + (if truthyStr (maturityDate info) then 1 else 0)
               in info \<lparr> m_confidence := tier confidenceScore \<rparr>))"

record deed_rules =
  considerationRule :: "string \<Rightarrow> real option"
  stampPhrase :: "string \<Rightarrow> bool"
  stampRule :: "string \<Rightarrow> real option"
  legalRule :: "string \<Rightarrow> string option"
  deedTypeRule :: "string \<Rightarrow> string option"

definition parseDeedText :: "deed_rules \<Rightarrow> string \<Rightarrow> deed_info" where
  "parseDeedText R text =
     (let info = \<lparr> consideration = None, d_legalDescription = None, d_propertyAddress = None,
                   deedType = None, d_grantors = [], d_grantees = [], d_confidence = ''low'' \<rparr>
      in if text = [] \<or> length (trim text) < 50 then info
         else (let normalizedText = toUpperCase text;
                   info = info \<lparr> consideration := considerationRule R text \<rparr>;
                   info =
                     (if \<not> truthyNum (consideration info) \<and> stampPhrase R text
                      then (case stampRule R text of
                              Some stamps \<Rightarrow> info \<lparr> consideration := Some ((stamps / 0.70) * 100) \<rparr>
                            | None \<Rightarrow> info)
                      else info);
                   info = info \<lparr> d_legalDescription := legalRule R text \<rparr>;
                   info = info \<lparr> deedType := deedTypeRule R normalizedText \<rparr>;
                   confidenceScore =
                     (if truthyNum (consideration info) then 2 else 0)
                     + (if truthyStr (d_legalDescription info) then 2 else 0)
                     + (if truthyStr (deedType info) then 1 else 0)
               in info \<lparr> d_confidence := tier confidenceScore \<rparr>))"

record satisfaction_rules =
  satisfiedRule :: "string \<Rightarrow> string option \<times> string option"
  originalLenderRule :: "string \<Rightarrow> string option"
  originalAmountRule :: "string \<Rightarrow> real option"
  satisfiedDateRule :: "string \<Rightarrow> string option"

definition parseSatisfactionText :: "satisfaction_rules \<Rightarrow> string \<Rightarrow> satisfaction_info" where
  "parseSatisfactionText R text =
     (let info = \<lparr> satisfiedInstrumentNumber = None, satisfiedBookPage = None,
                   originalLender = None, originalAmount = None, satisfiedDate = None,
                   s_confidence = ''low'' \<rparr>
      in if text = [] \<or> length (trim text) < 50 then info
         else (let normalizedText = toUpperCase text;
                   info = info \<lparr> satisfiedInstrumentNumber := fst (satisfiedRule R normalizedText),
                                 satisfiedBookPage := snd (satisfiedRule R normalizedText) \<rparr>;
                   info = info \<lparr> originalLender := originalLenderRule R text \<rparr>;
                   info = info \<lparr> originalAmount := originalAmountRule R text \<rparr>;
                   info = info \<lparr> satisfiedDate := satisfiedDateRule R text \<rparr>;
                   confidenceScore =
                     (if truthyStr (satisfiedInstrumentNumber info) \<or> truthyStr (satisfiedBookPage info)
                      then 3 else 0)
                     + (if truthyStr (originalLender info) then 2 else 0)
                     + (if truthyNum (originalAmount info) then 1 else 0)
               in info \<lparr> s_confidence := tier confidenceScore \<rparr>))"

text \<open>The dispatch of the batch extractor on the short code of the document.\<close>

record rules =
  mortgageRules :: mortgage_rules
  deedRules :: deed_rules
  satisfactionRules :: satisfaction_rules

definition parseFor :: "rules \<Rightarrow> string \<Rightarrow> string \<Rightarrow> extracted option" where
  "parseFor R docTypeCode text =
     (if docTypeCode = ''MTG'' \<or> js_includes docTypeCode ''MTG''
        then Some (MortgageData (parseMortgageText (mortgageRules R) text))
      else if docTypeCode = ''SAT'' \<or> js_includes docTypeCode ''SAT''
        then Some (SatisfactionData (parseSatisfactionText (satisfactionRules R) text))
      else if docTypeCode = ''D''
        then Some (DeedData (parseDeedText (deedRules R) text))
      else None)"

section \<open>Multi-signal matcher: matchSatisfactionsToMortgages\<close>

text \<open>
  \<open>sat.extractedData || {}\<close> and the reads of its properties: a property the object does
  not have is undefined, here \<open>None\<close>.
\<close>

definition satInstrument :: "document \<Rightarrow> string option" where
  "satInstrument d =
     (case extractedData d of Some (SatisfactionData s) \<Rightarrow> satisfiedInstrumentNumber s | _ \<Rightarrow> None)"

definition satBookPage :: "document \<Rightarrow> string option" where
  "satBookPage d =
     (case extractedData d of Some (SatisfactionData s) \<Rightarrow> satisfiedBookPage s | _ \<Rightarrow> None)"

definition satLender :: "document \<Rightarrow> string option" where
  "satLender d =
     (case extractedData d of Some (SatisfactionData s) \<Rightarrow> originalLender s | _ \<Rightarrow> None)"

definition satAmount :: "document \<Rightarrow> real option" where
  "satAmount d =
     (case extractedData d of Some (SatisfactionData s) \<Rightarrow> originalAmount s | _ \<Rightarrow> None)"

definition mtgAmount :: "document \<Rightarrow> real option" where
  "mtgAmount d =
     (case extractedData d of Some (MortgageData m) \<Rightarrow> principalAmount m | _ \<Rightarrow> None)"

definition mtgLender :: "document \<Rightarrow> string option" where
  "mtgLender d =
     (case extractedData d of Some (MortgageData m) \<Rightarrow> lenderName m | _ \<Rightarrow> None)"

text \<open>Method 1: both values truthy, and the extracted number equal to \<open>String(instrumentNumber)\<close>.\<close>

definition instrumentMatch :: "document \<Rightarrow> document \<Rightarrow> bool" where
  "instrumentMatch sat mtg =
     (case satInstrument sat of
        None \<Rightarrow> False
      | Some n \<Rightarrow> n \<noteq> [] \<and> truthy (instrumentNumber mtg) \<and> n = js_String (instrumentNumber mtg))"

text \<open>Method 2: the satisfied book/page text contains the book number and the page number.\<close>

definition bookPageMatch :: "document \<Rightarrow> document \<Rightarrow> bool" where
  "bookPageMatch sat mtg =
     (case satBookPage sat of
        None \<Rightarrow> False
      | Some bp \<Rightarrow> bp \<noteq> [] \<and> truthy (bookNum mtg) \<and> truthy (pageNum mtg)
          \<and> js_includes bp (js_String (bookNum mtg)) \<and> js_includes bp (js_String (pageNum mtg)))"

text \<open>Method 3: both amounts truthy (not null, not zero) and within 1 per cent. The arithmetic
  is exact here.\<close>

definition amountMatch :: "document \<Rightarrow> document \<Rightarrow> bool" where
  "amountMatch sat mtg =
     (case (satAmount sat, mtgAmount mtg) of
        (Some a, Some p) \<Rightarrow> a \<noteq> 0 \<and> p \<noteq> 0 \<and> \<bar>a - p\<bar> / p < 1 / 100
      | _ \<Rightarrow> False)"

text \<open>Method 4: either lender name, in lower case, contains the first word of the other.\<close>

definition lenderMatch :: "document \<Rightarrow> document \<Rightarrow> bool" where
  "lenderMatch sat mtg =
     (case (satLender sat, mtgLender mtg) of
        (Some sl, Some ml) \<Rightarrow> sl \<noteq> [] \<and> ml \<noteq> []
          \<and> (js_includes (toLowerCase sl) (firstToken (toLowerCase ml))
               \<or> js_includes (toLowerCase ml) (firstToken (toLowerCase sl)))
      | _ \<Rightarrow> False)"

text \<open>Method 5: the grantors joined by a space, in lower case, are both non-empty and start
  with the same word.\<close>

definition grantorMatch :: "document \<Rightarrow> document \<Rightarrow> bool" where
  "grantorMatch sat mtg =
     (let satGrantors = toLowerCase (join '' '' (grantors sat));
          mtgGrantors = toLowerCase (join '' '' (grantors mtg))
      in satGrantors \<noteq> [] \<and> mtgGrantors \<noteq> []
         \<and> firstToken satGrantors = firstToken mtgGrantors)"

text \<open>The score and the reasons after methods 1 to 5, accumulated in the order of the source.\<close>

definition scoreBeforeDate :: "document \<Rightarrow> document \<Rightarrow> int \<times> string list" where
  "scoreBeforeDate sat mtg =
     (let (score, matchReasons) = (0, []);
          (score, matchReasons) =
            (if instrumentMatch sat mtg
             then (score + 100, matchReasons @ [''Instrument # exact match''])
             else (score, matchReasons));
          (score, matchReasons) =
            (if bookPageMatch sat mtg
             then (score + 90, matchReasons @ [''Book/Page match''])
             else (score, matchReasons));
          (score, matchReasons) =
            (if amountMatch sat mtg
             then (score + 30, matchReasons @ [''Amount match''])
             else (score, matchReasons));
          (score, matchReasons) =
            (if lenderMatch sat mtg
             then (score + 20, matchReasons @ [''Lender name partial match''])
             else (score, matchReasons));
          (score, matchReasons) =
            (if grantorMatch sat mtg
             then (score + 10, matchReasons @ [''Grantor name match''])
             else (score, matchReasons))
      in (score, matchReasons))"

text \<open>Method 6, the date logic, gives the score of the pair.\<close>

definition pairScore :: "document \<Rightarrow> document \<Rightarrow> int \<times> string list" where
  "pairScore sat mtg =
     (let (score, matchReasons) = scoreBeforeDate sat mtg
      in (if recordTimestamp sat > recordTimestamp mtg then score + 5 else score - 20,
          matchReasons))"

record best_match =
  b_mortgage :: document
  b_index :: nat
  b_matchReasons :: "string list"

text \<open>The inner loop over the unmatched mortgages, from index \<open>i\<close>; \<open>bestMatch\<close> starts as
  null and \<open>bestScore\<close> as 0, and only a strictly higher score replaces them.\<close>

fun scanMortgages ::
  "document \<Rightarrow> document list \<Rightarrow> nat \<Rightarrow> best_match option \<times> int \<Rightarrow> best_match option \<times> int" where
  "scanMortgages sat [] i best = best"
| "scanMortgages sat (mtg # rest) i (bestMatch, bestScore) =
     (let (score, matchReasons) = pairScore sat mtg
      in scanMortgages sat rest (i + 1)
           (if score > bestScore
            then (Some \<lparr> b_mortgage = mtg, b_index = i, b_matchReasons = matchReasons \<rparr>, score)
            else (bestMatch, bestScore)))"

record match =
  satisfaction :: document
  mortgage :: document
  score :: int
  confidence :: string
  matchReasons :: "string list"

text \<open>The three local variables of the outer loop. The set holds instrument numbers,
  compared by value (as the source does for numbers and strings).\<close>

record match_state =
  s_matches :: "match list"
  s_unmatchedMortgages :: "document list"
  s_usedSatisfactions :: "jsval set"

text \<open>\<open>splice(index, 1)\<close>.\<close>

definition splice1 :: "nat \<Rightarrow> 'a list \<Rightarrow> 'a list" where
  "splice1 i xs = take i xs @ drop (Suc i) xs"

text \<open>The body of the acceptance branch: push the match, splice the mortgage out, record the
  satisfaction's instrument number.\<close>

definition acceptMatch :: "match_state \<Rightarrow> document \<Rightarrow> best_match \<Rightarrow> int \<Rightarrow> match_state" where
  "acceptMatch st sat bestMatch bestScore =
     \<lparr> s_matches = s_matches st @
         [\<lparr> satisfaction = sat,
            mortgage = b_mortgage bestMatch,
            score = bestScore,
            confidence = (if bestScore \<ge> 90 then ''high''
                          else if bestScore \<ge> 50 then ''medium'' else ''low''),
            matchReasons = b_matchReasons bestMatch \<rparr>],
       s_unmatchedMortgages = splice1 (b_index bestMatch) (s_unmatchedMortgages st),
       s_usedSatisfactions = insert (instrumentNumber sat) (s_usedSatisfactions st) \<rparr>"

text \<open>One round of the outer loop.\<close>

definition matchStep :: "match_state \<Rightarrow> document \<Rightarrow> match_state" where
  "matchStep st sat =
     (case scanMortgages sat (s_unmatchedMortgages st) 0 (None, 0) of
        (None, bestScore) \<Rightarrow> st
      | (Some bestMatch, bestScore) \<Rightarrow>
          if bestScore \<ge> 30 then acceptMatch st sat bestMatch bestScore else st)"

record match_result =
  matches :: "match list"
  unmatchedMortgages :: "document list"
  unmatchedSatisfactions :: "document list"

definition matchSatisfactionsToMortgages :: "document list \<Rightarrow> document list \<Rightarrow> match_result" where
  "matchSatisfactionsToMortgages mortgages satisfactions =
     (let st = foldl matchStep
                 \<lparr> s_matches = [], s_unmatchedMortgages = mortgages, s_usedSatisfactions = {} \<rparr>
                 satisfactions
      in \<lparr> matches = s_matches st,
           unmatchedMortgages = s_unmatchedMortgages st,
           unmatchedSatisfactions =
             filter (\<lambda>s. instrumentNumber s \<notin> s_usedSatisfactions st) satisfactions \<rparr>)"

text \<open>The shape of a number the satisfaction parser extracts: group \<open>([0-9]{6,})\<close>.\<close>

definition isInstrumentRef :: "string \<Rightarrow> bool" where
  "isInstrumentRef n = (6 \<le> length n \<and> list_all (\<lambda>c. c \<in> set ''0123456789'') n)"

section \<open>Name-based analysis: analyzeMortgages and identifyOpenLiens\<close>

text \<open>The test on a pair of lower-cased names that both functions use.\<close>

definition nameOverlap :: "string \<Rightarrow> string \<Rightarrow> bool" where
  "nameOverlap name other =
     (js_includes other (firstToken name) \<or> js_includes (firstToken name) (firstToken other))"

definition nameScore :: "document \<Rightarrow> document \<Rightarrow> int" where
  "nameScore mtg sat =
     (let mtgGrantors = map toLowerCase (grantors mtg);
          satGrantors = map toLowerCase (grantors sat);
          score = (if recordTimestamp sat > recordTimestamp mtg then 10 else 0)
      in score + 5 * int (length (filter (\<lambda>(mtgName, satName). nameOverlap mtgName satName)
                                  (List.product mtgGrantors satGrantors))))"

text \<open>The scan of the available satisfactions: \<open>bestMatchIndex\<close> starts at -1 and
  \<open>bestMatchScore\<close> at 0.\<close>

fun scanSatisfactions :: "document \<Rightarrow> document list \<Rightarrow> nat \<Rightarrow> int \<times> int \<Rightarrow> int \<times> int" where
  "scanSatisfactions mtg [] i best = best"
| "scanSatisfactions mtg (sat # rest) i (bestMatchIndex, bestMatchScore) =
     (let score = nameScore mtg sat
      in scanSatisfactions mtg rest (i + 1)
           (if score > bestMatchScore then (int i, score) else (bestMatchIndex, bestMatchScore)))"

fun analyzeLoop :: "document list \<Rightarrow> document list \<Rightarrow> mortgage_analysis \<Rightarrow> mortgage_analysis" where
  "analyzeLoop [] availableSats analysis = analysis"
| "analyzeLoop (mtg # rest) availableSats analysis =
     (let (bestMatchIndex, bestMatchScore) = scanSatisfactions mtg availableSats 0 (-1, 0)
      in if bestMatchIndex \<ge> 0 \<and> bestMatchScore \<ge> 10
         then analyzeLoop rest (splice1 (nat bestMatchIndex) availableSats)
                (analysis \<lparr> satisfied := satisfied analysis + 1,
                    satisfiedList := satisfiedList analysis @
                      [\<lparr> e_mortgage = mtg,
                         e_satisfaction = availableSats ! nat bestMatchIndex,
                         e_confidence = Some ''low'',
                         e_matchMethod = Some ''name'',
                         e_matchReasons = None \<rparr>] \<rparr>)
         else analyzeLoop rest availableSats (analysis \<lparr> open := open analysis @ [mtg] \<rparr>))"

definition analyzeMortgages :: "document list \<Rightarrow> document list \<Rightarrow> mortgage_analysis" where
  "analyzeMortgages mortgages satisfactions =
     analyzeLoop mortgages satisfactions
       \<lparr> total = length mortgages, satisfied = 0, open = [], satisfiedList = [],
         a_unmatchedSatisfactions = None \<rparr>"

text \<open>The first available release that is later than the lien and overlaps in a grantor
  name is spliced out; the result is the remaining releases, or \<open>None\<close> when there is none.\<close>

fun takeRelease :: "document \<Rightarrow> document list \<Rightarrow> document list option" where
  "takeRelease lien [] = None"
| "takeRelease lien (rel # rest) =
     (if recordTimestamp rel > recordTimestamp lien
         \<and> list_ex (\<lambda>lienName. list_ex (\<lambda>relName. nameOverlap lienName relName)
                      (map toLowerCase (grantors rel)))
             (map toLowerCase (grantors lien))
      then Some rest
      else map_option (\<lambda>r. rel # r) (takeRelease lien rest))"

fun openLiensLoop :: "document list \<Rightarrow> document list \<Rightarrow> document list \<Rightarrow> document list" where
  "openLiensLoop [] availableReleases result = result"
| "openLiensLoop (lien # rest) availableReleases result =
     (case takeRelease lien availableReleases of
        Some remaining \<Rightarrow> openLiensLoop rest remaining result
      | None \<Rightarrow> openLiensLoop rest availableReleases (result @ [lien]))"

definition identifyOpenLiens :: "document list \<Rightarrow> document list \<Rightarrow> document list" where
  "identifyOpenLiens liens releases = openLiensLoop liens releases []"

section \<open>The title package: performTitleSearch\<close>

record title_package =
  t_documents :: "document list"
  t_grouped :: groups
  t_chainOfTitle :: "chain_entry list"
  t_mortgageAnalysis :: mortgage_analysis
  t_openLiens :: "document list"
  t_flags :: "flag list"
  t_summary :: summary

text \<open>
  The part of \<open>performTitleSearch\<close> after the records are fetched and parsed, on
  Documents of the data model, where no step raises. The batch extractor, which downloads
  and reads the PDFs, is the parameter \<open>batchExtract\<close>: it gives the documents of its
  result. \<open>scanDocuments\<close> is the option of the call.
\<close>

definition performTitleSearch ::
  "bool \<Rightarrow> (document list \<Rightarrow> document list) \<Rightarrow> document list \<Rightarrow> title_package" where
  "performTitleSearch scanDocuments batchExtract docs =
     (let grouped = groupByDocType docs;
          chainOfTitle = buildChainOfTitle (grouped Deeds);
          mortgageAnalysis = analyzeMortgages (grouped Mortgages) (grouped Satisfactions);
          mortgageAnalysis =
            (if scanDocuments \<and> (length (grouped Mortgages) > 0 \<or> length (grouped Satisfactions) > 0)
             then (let docsToScan = grouped Mortgages @ grouped Satisfactions;
                       scanned = batchExtract docsToScan;
                       scannedMortgages =
                         filter (\<lambda>d. docTypeShort d = ''MTG''
                                      \<or> (docTypeShort d \<noteq> [] \<and> js_includes (docTypeShort d) ''MTG''))
                           scanned;
                       scannedSatisfactions =
                         filter (\<lambda>d. docTypeShort d = ''SAT''
                                      \<or> (docTypeShort d \<noteq> [] \<and> js_includes (docTypeShort d) ''SAT''))
                           scanned;
                       matchResults = matchSatisfactionsToMortgages scannedMortgages scannedSatisfactions
                   in \<lparr> total = length (grouped Mortgages),
                        satisfied = length (matches matchResults),
                        open = unmatchedMortgages matchResults,
                        satisfiedList =
                          map (\<lambda>m. \<lparr> e_mortgage = mortgage m, e_satisfaction = satisfaction m,
                                     e_confidence = Some (confidence m), e_matchMethod = None,
                                     e_matchReasons = Some (matchReasons m) \<rparr>)
                            (matches matchResults),
                        a_unmatchedSatisfactions = Some (unmatchedSatisfactions matchResults) \<rparr>)
             else mortgageAnalysis);
          liens = identifyOpenLiens (grouped Liens) (grouped Releases);
          flags = identifyFlags docs
      in \<lparr> t_documents = docs, t_grouped = grouped, t_chainOfTitle = chainOfTitle,
           t_mortgageAnalysis = mortgageAnalysis, t_openLiens = liens, t_flags = flags,
           t_summary = generateSummary docs chainOfTitle mortgageAnalysis liens flags \<rparr>)"

text \<open>
  The risk level in the words of the specification, where more than one open mortgage
  counts in scanned mode only.
\<close>

definition riskLevel_spec :: "bool \<Rightarrow> flag list \<Rightarrow> document list \<Rightarrow> document list \<Rightarrow> string" where
  "riskLevel_spec scanned flags liens openMortgageList =
     (if list_ex (\<lambda>f. severity f = ''high'') flags then ''HIGH''
      else if list_ex (\<lambda>f. severity f = ''medium'') flags \<or> liens \<noteq> []
              \<or> (scanned \<and> length openMortgageList > 1)
           then ''MEDIUM''
      else ''LOW'')"

section \<open>Example documents\<close>

text \<open>A blank document, and the documents the examples below are run on.\<close>

definition blankDoc :: document where
  "blankDoc =
     \<lparr> instrumentNumber = Undefined, grantors = [], grantees = [], recordDate = [],
       recordTimestamp = 0, docType = [], docTypeShort = [], legalDescription = Undefined,
       salesPrice = Undefined, pageCount = Undefined, documentId = Undefined,
       uuid = Undefined, bookNum = Undefined, pageNum = Undefined, extractedData = None \<rparr>"

definition mkDoc :: "int \<Rightarrow> string \<Rightarrow> int \<Rightarrow> document" where
  "mkDoc n label t =
     blankDoc \<lparr> instrumentNumber := Num n, recordTimestamp := t, docType := label,
       docTypeShort := takeWhile (\<lambda>c. c \<noteq> CHR '')'') (drop 1 label) \<rparr>"

definition deedA :: document where "deedA = mkDoc 1 ''(D) DEED'' 300"
definition deedB :: document where "deedB = mkDoc 2 ''(D) DEED'' 100"
definition deedC :: document where "deedC = mkDoc 3 ''(D) DEED'' 100"
definition mtgA :: document where "mtgA = mkDoc 4 ''(MTG) MORTGAGE'' 200"
definition taxDeed :: document where "taxDeed = mkDoc 5 ''(TAXDEED) TAX DEED'' 250"


text \<open>A scanned mortgage with instrument number 123456, recorded at time 1000, and scanned
  satisfactions that refer to that number.\<close>

definition exMortgage :: document where
  "exMortgage =
     (mkDoc 123456 ''(MTG) MORTGAGE'' 1000)
       \<lparr> grantors := [''SMITH JOHN''],
         extractedData := Some (MortgageData
           \<lparr> principalAmount = Some 200000, lenderName = Some ''WELLS FARGO BANK'',
             instrumentReferences = [], isModification = False, isRefinance = False,
             maturityDate = None, interestRate = None, m_propertyAddress = None,
             m_confidence = ''high'' \<rparr>) \<rparr>"

definition exSat :: "int \<Rightarrow> int \<Rightarrow> document" where
  "exSat n t =
     (mkDoc n ''(SAT) SATISFACTION'' t)
       \<lparr> extractedData := Some (SatisfactionData
           \<lparr> satisfiedInstrumentNumber = Some ''123456'', satisfiedBookPage = None,
             originalLender = None, originalAmount = None, satisfiedDate = None,
             s_confidence = ''medium'' \<rparr>) \<rparr>"

text \<open>A raw record with every field absent, and a date formatter for the examples.\<close>

definition blankRecord :: raw_record where
  "blankRecord =
     \<lparr> Instrument = Undefined, PartiesOne = Undefined, PartiesTwo = Undefined,
       RecordDate = Undefined, DocType = Undefined, Legal = Undefined, SalesPrice = Undefined,
       PageCount = Undefined, ID = Undefined, UUID = Undefined, BookNum = Undefined,
       PageNum = Undefined \<rparr>"

definition plainDate :: "jsval \<Rightarrow> string" where
  "plainDate v = js_String v"

definition mtgAt :: "int \<Rightarrow> int \<Rightarrow> document" where
  "mtgAt n t = mkDoc n ''(MTG) MORTGAGE'' t"

text \<open>Pattern rules that find a value in every text.\<close>

definition eagerMortgageRules :: mortgage_rules where
  "eagerMortgageRules =
     \<lparr> principalRule = (\<lambda>t. Some 250000), lenderRule = (\<lambda>t. Some ''WELLS FARGO BANK''),
       referenceRule = (\<lambda>t. [''123456'']), modificationTest = (\<lambda>t. True),
       refinanceTest = (\<lambda>t. True), rateRule = (\<lambda>t. Some 5),
       maturityRule = (\<lambda>t. Some ''01/01/2050'') \<rparr>"

definition eagerDeedRules :: deed_rules where
  "eagerDeedRules =
     \<lparr> considerationRule = (\<lambda>t. Some 250000), stampPhrase = (\<lambda>t. True),
       stampRule = (\<lambda>t. Some 1750), legalRule = (\<lambda>t. Some ''LOT 1, BLOCK 2''),
       deedTypeRule = (\<lambda>t. Some ''WARRANTY'') \<rparr>"

definition eagerSatisfactionRules :: satisfaction_rules where
  "eagerSatisfactionRules =
     \<lparr> satisfiedRule = (\<lambda>t. (Some ''123456'', None)),
       originalLenderRule = (\<lambda>t. Some ''WELLS FARGO BANK''),
       originalAmountRule = (\<lambda>t. Some 250000),
       satisfiedDateRule = (\<lambda>t. Some ''01/01/2020'') \<rparr>"

text \<open>The raw record of a tax deed, and a raw record that has no \<open>DocType\<close>.\<close>

definition taxDeedRecord :: raw_record where
  "taxDeedRecord =
     blankRecord \<lparr> Instrument := Num 5, RecordDate := Num 250, DocType := Str TAX_DEED \<rparr>"

definition untypedRecord :: raw_record where
  "untypedRecord = blankRecord \<lparr> Instrument := Num 6, RecordDate := Num 100 \<rparr>"

section \<open>Sorting lemmas\<close>

lemma insort_cmp_oldest: "insort_cmp oldestFirst x ys = insort_key recordTimestamp x ys"
  by (induction ys) (auto simp: oldestFirst_def)

lemma insort_cmp_newest:
  "insort_cmp newestFirst x ys = insort_key (\<lambda>d. - recordTimestamp d) x ys"
  by (induction ys) (auto simp: newestFirst_def)

lemma js_sort_oldest: "js_sort oldestFirst xs = sort_key recordTimestamp xs"
  by (induction xs) (simp_all add: js_sort_def insort_cmp_oldest)

lemma js_sort_newest: "js_sort newestFirst xs = sort_key (\<lambda>d. - recordTimestamp d) xs"
  by (induction xs) (simp_all add: js_sort_def insort_cmp_newest)

lemma sorted_wrt_newest:
  "sorted_wrt (\<lambda>a b. recordTimestamp b \<le> recordTimestamp a)
     (sort_key (\<lambda>d. - recordTimestamp d) xs)"
proof -
  have "sorted (map (\<lambda>d. - recordTimestamp d) (sort_key (\<lambda>d. - recordTimestamp d) xs))"
    by (rule sorted_sort_key)
  then show ?thesis by (simp add: sorted_map)
qed

lemma sorted_wrt_oldest:
  "sorted_wrt (\<lambda>a b. recordTimestamp a \<le> recordTimestamp b) (sort_key recordTimestamp xs)"
proof -
  have "sorted (map recordTimestamp (sort_key recordTimestamp xs))"
    by (rule sorted_sort_key)
  then show ?thesis by (simp add: sorted_map)
qed

lemma stable_newest:
  "filter (\<lambda>d. recordTimestamp d = t) (sort_key (\<lambda>d. - recordTimestamp d) xs)
     = filter (\<lambda>d. recordTimestamp d = t) xs"
  using sort_key_stable [of "\<lambda>d. - recordTimestamp d" "- t" xs] by simp

section \<open>Classifier\<close>

lemma foldl_pushDoc:
  "foldl pushDoc g docs b = g b @ filter (\<lambda>d. bucketOf (docTypeShort d) = b) docs"
  by (induction docs arbitrary: g) (auto simp: pushDoc_def)

lemma groupByDocType_bucket:
  "groupByDocType docs b =
     sort_key (\<lambda>d. - recordTimestamp d) (filter (\<lambda>d. bucketOf (docTypeShort d) = b) docs)"
  by (simp add: groupByDocType_def foldl_pushDoc emptyGroups_def js_sort_newest)

lemma bucket_cases_sum:
  "(\<Sum>b\<leftarrow>allBuckets. (if bucketOf t = b then {#d#} else {#})) = {#d#}"
  by (cases "bucketOf t") (simp_all add: allBuckets_def)

lemma buckets_cover:
  "(\<Sum>b\<leftarrow>allBuckets. mset (filter (\<lambda>d. bucketOf (docTypeShort d) = b) docs)) = mset docs"
proof (induction docs)
  case Nil
  show ?case by (simp add: allBuckets_def)
next
  case (Cons d docs)
  have "(\<Sum>b\<leftarrow>allBuckets. mset (filter (\<lambda>d. bucketOf (docTypeShort d) = b) (d # docs)))
      = (\<Sum>b\<leftarrow>allBuckets. (if bucketOf (docTypeShort d) = b then {#d#} else {#})
            + mset (filter (\<lambda>d. bucketOf (docTypeShort d) = b) docs))"
    by (rule arg_cong [where f = sum_list]) auto
  also have "\<dots> = (\<Sum>b\<leftarrow>allBuckets. (if bucketOf (docTypeShort d) = b then {#d#} else {#}))
      + (\<Sum>b\<leftarrow>allBuckets. mset (filter (\<lambda>d. bucketOf (docTypeShort d) = b) docs))"
    by (simp add: sum_list_addf)
  finally show ?case using Cons.IH by (simp add: bucket_cases_sum)
qed

lemma bucketOf_table:
  "map bucketOf tableCodes =
     [Deeds, Mortgages, Mortgages, Mortgages, Mortgages, Mortgages, Satisfactions,
      Satisfactions, Liens, Liens, Liens, LisPendens, Easements, Restrictions, Judgments,
      Releases, Releases, Assignments, Assignments, Assignments, Modifications]"
  by (simp add: tableCodes_def bucketOf_def)

lemma bucketOf_Other: "bucketOf t = Other \<longleftrightarrow> t \<notin> set tableCodes"
  by (simp add: bucketOf_def tableCodes_def)

text \<open>
  C5. Classification is total and exhaustive. A document is in the bucket that the code
  table gives for its \<open>docTypeShort\<close>, as often as it is in the input, and in no other
  bucket; a code without a \<open>case\<close> label goes to \<open>Other\<close>, and the labels are compared
  case-sensitively; the buckets together hold exactly the input documents.
\<close>

theorem groupByDocType_partition:
  "(\<forall>b. mset (groupByDocType docs b)
          = filter_mset (\<lambda>d. bucketOf (docTypeShort d) = b) (mset docs))
   \<and> (\<forall>d b. d \<in> set (groupByDocType docs b)
          \<longleftrightarrow> d \<in> set docs \<and> b = bucketOf (docTypeShort d))
   \<and> (\<Sum>b\<leftarrow>allBuckets. mset (groupByDocType docs b)) = mset docs
   \<and> distinct allBuckets \<and> set allBuckets = UNIV
   \<and> (\<forall>t. bucketOf t = Other \<longleftrightarrow> t \<notin> set tableCodes)
   \<and> map bucketOf tableCodes =
       [Deeds, Mortgages, Mortgages, Mortgages, Mortgages, Mortgages, Satisfactions,
        Satisfactions, Liens, Liens, Liens, LisPendens, Easements, Restrictions, Judgments,
        Releases, Releases, Assignments, Assignments, Assignments, Modifications]
   \<and> bucketOf ''d'' = Other \<and> bucketOf ''mtg'' = Other \<and> bucketOf ''Sat'' = Other"
proof -
  have a: "\<forall>b. mset (groupByDocType docs b)
          = filter_mset (\<lambda>d. bucketOf (docTypeShort d) = b) (mset docs)"
    by (simp add: groupByDocType_bucket)
  have b: "\<forall>d b. d \<in> set (groupByDocType docs b)
          \<longleftrightarrow> d \<in> set docs \<and> b = bucketOf (docTypeShort d)"
    by (auto simp: groupByDocType_bucket)
  have c: "(\<Sum>b\<leftarrow>allBuckets. mset (groupByDocType docs b)) = mset docs"
    using buckets_cover [of docs] by (simp add: groupByDocType_bucket)
  have d: "distinct allBuckets" by (simp add: allBuckets_def)
  have e: "set allBuckets = UNIV"
  proof -
    have "x \<in> set allBuckets" for x by (cases x) (simp_all add: allBuckets_def)
    then show ?thesis by auto
  qed
  have f: "bucketOf ''d'' = Other \<and> bucketOf ''mtg'' = Other \<and> bucketOf ''Sat'' = Other"
    by (simp add: bucketOf_def)
  from a b c d e f bucketOf_Other bucketOf_table show ?thesis by blast
qed

theorem groupByDocType_partition_witness:
  "mset (groupByDocType [deedA, mtgA, taxDeed, deedB] Deeds) = {#deedA, deedB#}
   \<and> mset (groupByDocType [deedA, mtgA, taxDeed, deedB] Other) = {#taxDeed#}
   \<and> bucketOf ''TAXDEED'' = Other"
proof -
  have t: "''TAXDEED'' \<notin> set tableCodes" by (simp add: tableCodes_def)
  have s: "docTypeShort deedA = ''D''" "docTypeShort deedB = ''D''"
    "docTypeShort mtgA = ''MTG''" "docTypeShort taxDeed = ''TAXDEED''"
    by (simp_all add: deedA_def deedB_def mtgA_def taxDeed_def mkDoc_def blankDoc_def)
  have b: "bucketOf ''D'' = Deeds" "bucketOf ''MTG'' = Mortgages" "bucketOf ''TAXDEED'' = Other"
    by (simp_all add: bucketOf_def)
  let ?L = "[deedA, mtgA, taxDeed, deedB]"
  have m: "mset (groupByDocType ?L k) = filter_mset (\<lambda>d. bucketOf (docTypeShort d) = k) (mset ?L)"
    for k
    using groupByDocType_partition [of ?L] by blast
  have o: "bucketOf ''TAXDEED'' = Other"
    using groupByDocType_partition [of ?L] t by blast
  show ?thesis
    by (simp add: m [of Deeds] m [of Other] s b)
qed

text \<open>
  C6. Every bucket is in descending order of \<open>recordTimestamp\<close>, and documents with the same
  \<open>recordTimestamp\<close> are in the order they have in the input.
\<close>

theorem groupByDocType_sorted_stable:
  "sorted_wrt (\<lambda>a b. recordTimestamp b \<le> recordTimestamp a) (groupByDocType docs b)
   \<and> (\<forall>t. filter (\<lambda>d. recordTimestamp d = t) (groupByDocType docs b)
          = filter (\<lambda>d. recordTimestamp d = t)
              (filter (\<lambda>d. bucketOf (docTypeShort d) = b) docs))"
proof -
  let ?members = "filter (\<lambda>d. bucketOf (docTypeShort d) = b) docs"
  have bucket: "groupByDocType docs b = sort_key (\<lambda>d. - recordTimestamp d) ?members"
    by (rule groupByDocType_bucket)
  have descending:
    "sorted_wrt (\<lambda>a b. recordTimestamp b \<le> recordTimestamp a) (groupByDocType docs b)"
    unfolding bucket by (rule sorted_wrt_newest)
  have stable: "filter (\<lambda>d. recordTimestamp d = t) (groupByDocType docs b)
      = filter (\<lambda>d. recordTimestamp d = t) ?members" for t
    unfolding bucket by (rule stable_newest)
  from descending stable show ?thesis by blast
qed

theorem groupByDocType_sorted_stable_witness:
  "groupByDocType [deedB, mtgA, deedA, deedC] Deeds = [deedA, deedB, deedC]"
proof -
  let ?g = "groupByDocType [deedB, mtgA, deedA, deedC] Deeds"
  have ts: "recordTimestamp deedA = 300" "recordTimestamp deedB = 100"
    "recordTimestamp deedC = 100"
    by (simp_all add: deedA_def deedB_def deedC_def mkDoc_def blankDoc_def)
  have s: "docTypeShort deedA = ''D''" "docTypeShort deedB = ''D''"
    "docTypeShort deedC = ''D''" "docTypeShort mtgA = ''MTG''"
    by (simp_all add: deedA_def deedB_def deedC_def mtgA_def mkDoc_def blankDoc_def)
  have b: "bucketOf ''D'' = Deeds" "bucketOf ''MTG'' = Mortgages"
    by (simp_all add: bucketOf_def)
  have "sorted_wrt (\<lambda>a b. recordTimestamp b \<le> recordTimestamp a) ?g"
    using groupByDocType_sorted_stable [of "[deedB, mtgA, deedA, deedC]" Deeds] by blast
  moreover have "?g = [deedA, deedB, deedC]"
    by (simp add: groupByDocType_bucket s b ts)
  ultimately show ?thesis by simp
qed

section \<open>Chain of title\<close>

lemma map_zip_upt:
  "map (\<lambda>(x, i). f x i) (zip xs [0 ..< length xs]) = map (\<lambda>i. f (xs ! i) i) [0 ..< length xs]"
  by (rule nth_equalityI) simp_all

text \<open>
  C4. For N deeds the chain has N entries, numbered 1..N. Entry \<open>i\<close> is built from the
  \<open>i\<close>-th deed of the stable rearrangement of the input in ascending order of
  \<open>recordTimestamp\<close>. The empty input gives the empty chain.
\<close>

theorem buildChainOfTitle_sequence:
  "length (buildChainOfTitle deeds) = length deeds
   \<and> map sequence (buildChainOfTitle deeds) = [1 ..< Suc (length deeds)]
   \<and> (\<exists>sorted. mset sorted = mset deeds
        \<and> sorted_wrt (\<lambda>a b. recordTimestamp a \<le> recordTimestamp b) sorted
        \<and> (\<forall>t. filter (\<lambda>d. recordTimestamp d = t) sorted
               = filter (\<lambda>d. recordTimestamp d = t) deeds)
        \<and> buildChainOfTitle deeds
            = map (\<lambda>i. chainEntry (sorted ! i) i) [0 ..< length deeds])
   \<and> buildChainOfTitle [] = []"
proof -
  let ?s = "sort_key recordTimestamp deeds"
  have chain: "buildChainOfTitle deeds = map (\<lambda>i. chainEntry (?s ! i) i) [0 ..< length deeds]"
    using map_zip_upt [of chainEntry ?s]
    by (simp add: buildChainOfTitle_def js_sort_oldest Let_def)
  have len: "length (buildChainOfTitle deeds) = length deeds"
    by (simp add: chain)
  have "map sequence (buildChainOfTitle deeds) = map Suc [0 ..< length deeds]"
    by (simp add: chain chainEntry_def)
  then have seq: "map sequence (buildChainOfTitle deeds) = [1 ..< Suc (length deeds)]"
    by (simp add: map_Suc_upt)
  have ex: "\<exists>sorted. mset sorted = mset deeds
        \<and> sorted_wrt (\<lambda>a b. recordTimestamp a \<le> recordTimestamp b) sorted
        \<and> (\<forall>t. filter (\<lambda>d. recordTimestamp d = t) sorted
               = filter (\<lambda>d. recordTimestamp d = t) deeds)
        \<and> buildChainOfTitle deeds
            = map (\<lambda>i. chainEntry (sorted ! i) i) [0 ..< length deeds]"
    using chain sorted_wrt_oldest [of deeds] sort_key_stable [of recordTimestamp _ deeds]
    by (intro exI [of _ ?s]) simp
  have "buildChainOfTitle [] = []" by (simp add: buildChainOfTitle_def)
  with len seq ex show ?thesis by blast
qed

theorem buildChainOfTitle_sequence_witness:
  "map sequence (buildChainOfTitle [deedA, deedB, deedC]) = [1, 2, 3]
   \<and> map c_instrumentNumber (buildChainOfTitle [deedA, deedB, deedC]) = [Num 2, Num 3, Num 1]"
proof -
  have ts: "recordTimestamp deedA = 300" "recordTimestamp deedB = 100"
    "recordTimestamp deedC = 100"
    by (simp_all add: deedA_def deedB_def deedC_def mkDoc_def blankDoc_def)
  have i: "instrumentNumber deedA = Num 1" "instrumentNumber deedB = Num 2"
    "instrumentNumber deedC = Num 3"
    by (simp_all add: deedA_def deedB_def deedC_def mkDoc_def blankDoc_def)
  have u: "[1 ..< Suc 3] = [1, 2, 3::nat]" by code_simp
  have "map sequence (buildChainOfTitle [deedA, deedB, deedC])
      = [1 ..< Suc (length [deedA, deedB, deedC])]"
    using buildChainOfTitle_sequence [of "[deedA, deedB, deedC]"] by blast
  then have "map sequence (buildChainOfTitle [deedA, deedB, deedC]) = [1 ..< Suc 3]"
    by (simp add: eval_nat_numeral)
  moreover have "map c_instrumentNumber (buildChainOfTitle [deedA, deedB, deedC])
      = [Num 2, Num 3, Num 1]"
    by (simp add: buildChainOfTitle_def js_sort_oldest ts i chainEntry_def upt_rec)
  ultimately show ?thesis by (simp only: u simp_thms)
qed

section \<open>Risk flags\<close>














section \<open>Matcher\<close>

lemma scan_result:
  "scanMortgages sat rest i best = (Some b, s) \<Longrightarrow>
     best = (Some b, s)
     \<or> (i \<le> b_index b \<and> b_index b < i + length rest
        \<and> rest ! (b_index b - i) = b_mortgage b
        \<and> pairScore sat (b_mortgage b) = (s, b_matchReasons b))"
proof (induction rest arbitrary: i best)
  case Nil
  then show ?case by simp
next
  case (Cons mtg rest)
  obtain bm bs where best: "best = (bm, bs)" by (cases best)
  obtain sc rs where ps: "pairScore sat mtg = (sc, rs)" by (cases "pairScore sat mtg")
  let ?best' = "if sc > bs
            then (Some \<lparr> b_mortgage = mtg, b_index = i, b_matchReasons = rs \<rparr>, sc)
            else (bm, bs)"
  from Cons.prems have run: "scanMortgages sat rest (i + 1) ?best' = (Some b, s)"
    by (simp add: best ps)
  from Cons.IH [OF run] show ?case
  proof
    assume eq: "?best' = (Some b, s)"
    show ?thesis
    proof (cases "sc > bs")
      case True
      with eq have "b = \<lparr> b_mortgage = mtg, b_index = i, b_matchReasons = rs \<rparr>" "s = sc"
        by simp_all
      then show ?thesis by (simp add: ps)
    next
      case False
      with eq show ?thesis by (simp add: best)
    qed
  next
    assume a: "i + 1 \<le> b_index b \<and> b_index b < i + 1 + length rest
        \<and> rest ! (b_index b - (i + 1)) = b_mortgage b
        \<and> pairScore sat (b_mortgage b) = (s, b_matchReasons b)"
    then have "b_index b - i = Suc (b_index b - (i + 1))" by arith
    then have "(mtg # rest) ! (b_index b - i) = rest ! (b_index b - (i + 1))"
      by simp
    with a show ?thesis by auto
  qed
qed

lemma scan_mono: "bs \<le> snd (scanMortgages sat rest i (bm, bs))"
proof (induction rest arbitrary: i bm bs)
  case Nil
  show ?case by simp
next
  case (Cons mtg rest)
  obtain sc rs where ps: "pairScore sat mtg = (sc, rs)" by (cases "pairScore sat mtg")
  show ?case
  proof (cases "sc > bs")
    case True
    then show ?thesis
      using Cons.IH [of sc "i + 1" "Some \<lparr> b_mortgage = mtg, b_index = i, b_matchReasons = rs \<rparr>"]
      by (simp add: ps)
  next
    case False
    then show ?thesis using Cons.IH [of bs "i + 1" bm] by (simp add: ps)
  qed
qed

lemma scan_upper:
  "m \<in> set rest \<Longrightarrow> fst (pairScore sat m) \<le> snd (scanMortgages sat rest i (bm, bs))"
proof (induction rest arbitrary: i bm bs)
  case Nil
  then show ?case by simp
next
  case (Cons mtg rest)
  obtain sc rs where ps: "pairScore sat mtg = (sc, rs)" by (cases "pairScore sat mtg")
  let ?new = "Some \<lparr> b_mortgage = mtg, b_index = i, b_matchReasons = rs \<rparr>"
  show ?case
  proof (cases "m = mtg")
    case True
    show ?thesis
    proof (cases "sc > bs")
      case True
      then show ?thesis using scan_mono [of sc sat rest "i + 1" ?new] \<open>m = mtg\<close>
        by (simp add: ps)
    next
      case False
      then show ?thesis using scan_mono [of bs sat rest "i + 1" bm] \<open>m = mtg\<close>
        by (simp add: ps)
    qed
  next
    case False
    with Cons.prems have "m \<in> set rest" by simp
    then show ?thesis
      using Cons.IH [of "i + 1" ?new sc] Cons.IH [of "i + 1" bm bs]
      by (simp add: ps)
  qed
qed

lemma scan_none:
  "fst (scanMortgages sat rest i (bm, bs)) = None \<Longrightarrow>
     bm = None \<and> snd (scanMortgages sat rest i (bm, bs)) = bs"
proof (induction rest arbitrary: i bm bs)
  case Nil
  then show ?case by simp
next
  case (Cons mtg rest)
  obtain sc rs where ps: "pairScore sat mtg = (sc, rs)" by (cases "pairScore sat mtg")
  let ?new = "Some \<lparr> b_mortgage = mtg, b_index = i, b_matchReasons = rs \<rparr>"
  show ?case
  proof (cases "sc > bs")
    case True
    with Cons.prems have "fst (scanMortgages sat rest (i + 1) (?new, sc)) = None"
      by (simp add: ps)
    from Cons.IH [OF this] show ?thesis by simp
  next
    case False
    with Cons.prems have "fst (scanMortgages sat rest (i + 1) (bm, bs)) = None"
      by (simp add: ps)
    from Cons.IH [OF this] False show ?thesis by (auto simp: ps)
  qed
qed

lemma scan_found:
  assumes "m \<in> set pool" and "0 < fst (pairScore sat m)"
  obtains b s where "scanMortgages sat pool 0 (None, 0) = (Some b, s)"
    and "fst (pairScore sat m) \<le> s"
    and "b_index b < length pool" and "pool ! b_index b = b_mortgage b"
    and "pairScore sat (b_mortgage b) = (s, b_matchReasons b)"
proof -
  obtain r s where rs: "scanMortgages sat pool 0 (None, 0) = (r, s)"
    by (cases "scanMortgages sat pool 0 (None, 0)")
  have up: "fst (pairScore sat m) \<le> s"
    using scan_upper [OF assms(1), of sat 0 None 0] by (simp add: rs)
  have "r \<noteq> None"
  proof
    assume "r = None"
    then have "s = 0" using scan_none [of sat pool 0 None 0] by (simp add: rs)
    with up assms(2) show False by simp
  qed
  then obtain b where b: "r = Some b" by blast
  from scan_result [of sat pool 0 "(None, 0)" b s] rs b
  have "b_index b < length pool \<and> pool ! b_index b = b_mortgage b
      \<and> pairScore sat (b_mortgage b) = (s, b_matchReasons b)"
    by simp
  with rs b up that show thesis by blast
qed


lemma splice1_mset: "i < length xs \<Longrightarrow> add_mset (xs ! i) (mset (splice1 i xs)) = mset xs"
proof -
  assume "i < length xs"
  then have "xs = take i xs @ xs ! i # drop (Suc i) xs"
    by (simp add: id_take_nth_drop)
  then have "mset xs = mset (take i xs @ xs ! i # drop (Suc i) xs)" by simp
  then show ?thesis by (simp add: splice1_def)
qed

lemma splice1_subset: "set (splice1 i xs) \<subseteq> set xs"
  unfolding splice1_def using set_take_subset [of i xs] set_drop_subset [of "Suc i" xs] by auto

lemma matchStep_shape:
  "matchStep st sat = st
   \<or> (\<exists>b s. scanMortgages sat (s_unmatchedMortgages st) 0 (None, 0) = (Some b, s)
        \<and> 30 \<le> s
        \<and> b_index b < length (s_unmatchedMortgages st)
        \<and> s_unmatchedMortgages st ! b_index b = b_mortgage b
        \<and> pairScore sat (b_mortgage b) = (s, b_matchReasons b)
        \<and> matchStep st sat =
            acceptMatch st sat b s)"
proof -
  obtain r s where rs: "scanMortgages sat (s_unmatchedMortgages st) 0 (None, 0) = (r, s)"
    by (cases "scanMortgages sat (s_unmatchedMortgages st) 0 (None, 0)")
  show ?thesis
  proof (cases r)
    case None
    then show ?thesis by (simp add: matchStep_def rs)
  next
    case (Some b)
    from scan_result [of sat "s_unmatchedMortgages st" 0 "(None, 0)" b s] rs Some
    have v: "b_index b < length (s_unmatchedMortgages st)
        \<and> s_unmatchedMortgages st ! b_index b = b_mortgage b
        \<and> pairScore sat (b_mortgage b) = (s, b_matchReasons b)"
      by simp
    show ?thesis
    proof (cases "30 \<le> s")
      case True
      with v Some rs show ?thesis by (simp add: matchStep_def)
    next
      case False
      with Some rs show ?thesis by (simp add: matchStep_def)
    qed
  qed
qed

lemma matchStep_invariant:
  "mset (map mortgage (s_matches (matchStep st sat))) + mset (s_unmatchedMortgages (matchStep st sat))
     = mset (map mortgage (s_matches st)) + mset (s_unmatchedMortgages st)
   \<and> set (s_unmatchedMortgages (matchStep st sat)) \<subseteq> set (s_unmatchedMortgages st)
   \<and> (\<exists>new. (new = [] \<or> new = [sat])
        \<and> map satisfaction (s_matches (matchStep st sat)) = map satisfaction (s_matches st) @ new
        \<and> s_usedSatisfactions (matchStep st sat)
            = s_usedSatisfactions st \<union> instrumentNumber ` set new)
   \<and> (\<exists>ms. s_matches (matchStep st sat) = s_matches st @ ms)"
  using matchStep_shape [of st sat]
proof
  assume "matchStep st sat = st"
  then show ?thesis by simp
next
  assume "\<exists>b s. scanMortgages sat (s_unmatchedMortgages st) 0 (None, 0) = (Some b, s)
        \<and> 30 \<le> s
        \<and> b_index b < length (s_unmatchedMortgages st)
        \<and> s_unmatchedMortgages st ! b_index b = b_mortgage b
        \<and> pairScore sat (b_mortgage b) = (s, b_matchReasons b)
        \<and> matchStep st sat =
            acceptMatch st sat b s"
  then obtain b s where
    i: "b_index b < length (s_unmatchedMortgages st)" and
    n: "s_unmatchedMortgages st ! b_index b = b_mortgage b" and
    eq: "matchStep st sat =
            acceptMatch st sat b s"
    by blast
  have a: "mset (map mortgage (s_matches (matchStep st sat)))
        + mset (s_unmatchedMortgages (matchStep st sat))
     = mset (map mortgage (s_matches st)) + mset (s_unmatchedMortgages st)"
    using splice1_mset [OF i] n by (simp add: eq acceptMatch_def)
  have b: "set (s_unmatchedMortgages (matchStep st sat)) \<subseteq> set (s_unmatchedMortgages st)"
    by (simp add: eq acceptMatch_def splice1_subset)
  have c: "\<exists>new. (new = [] \<or> new = [sat])
        \<and> map satisfaction (s_matches (matchStep st sat)) = map satisfaction (s_matches st) @ new
        \<and> s_usedSatisfactions (matchStep st sat)
            = s_usedSatisfactions st \<union> instrumentNumber ` set new"
    by (rule exI [of _ "[sat]"]) (simp add: eq acceptMatch_def)
  have d: "\<exists>ms. s_matches (matchStep st sat) = s_matches st @ ms"
    by (simp add: eq acceptMatch_def)
  from a b c d show ?thesis by blast
qed

lemma run_invariant:
  "mset (map mortgage (s_matches (foldl matchStep st ss)))
       + mset (s_unmatchedMortgages (foldl matchStep st ss))
     = mset (map mortgage (s_matches st)) + mset (s_unmatchedMortgages st)
   \<and> set (s_unmatchedMortgages (foldl matchStep st ss)) \<subseteq> set (s_unmatchedMortgages st)
   \<and> (\<exists>new. subseq new ss
        \<and> map satisfaction (s_matches (foldl matchStep st ss))
            = map satisfaction (s_matches st) @ new
        \<and> s_usedSatisfactions (foldl matchStep st ss)
            = s_usedSatisfactions st \<union> instrumentNumber ` set new)
   \<and> (\<exists>ms. s_matches (foldl matchStep st ss) = s_matches st @ ms)"
proof (induction ss arbitrary: st)
  case Nil
  show ?case by simp
next
  case (Cons sat ss)
  let ?st = "matchStep st sat"
  let ?fin = "foldl matchStep ?st ss"
  note step = matchStep_invariant [of st sat]
  note ih = Cons.IH [of ?st]
  from step obtain n1 where n1: "n1 = [] \<or> n1 = [sat]"
    "map satisfaction (s_matches ?st) = map satisfaction (s_matches st) @ n1"
    "s_usedSatisfactions ?st = s_usedSatisfactions st \<union> instrumentNumber ` set n1"
    by blast
  from ih obtain n2 where n2: "subseq n2 ss"
    "map satisfaction (s_matches ?fin) = map satisfaction (s_matches ?st) @ n2"
    "s_usedSatisfactions ?fin = s_usedSatisfactions ?st \<union> instrumentNumber ` set n2"
    by blast
  have sub: "subseq (n1 @ n2) (sat # ss)"
    using n1(1) n2(1) by auto
  have c: "\<exists>new. subseq new (sat # ss)
        \<and> map satisfaction (s_matches (foldl matchStep st (sat # ss)))
            = map satisfaction (s_matches st) @ new
        \<and> s_usedSatisfactions (foldl matchStep st (sat # ss))
            = s_usedSatisfactions st \<union> instrumentNumber ` set new"
    using sub n1 n2 by (intro exI [of _ "n1 @ n2"]) (auto simp: image_Un)
  have a: "mset (map mortgage (s_matches (foldl matchStep st (sat # ss))))
       + mset (s_unmatchedMortgages (foldl matchStep st (sat # ss)))
     = mset (map mortgage (s_matches st)) + mset (s_unmatchedMortgages st)"
    using step ih by simp
  have b: "set (s_unmatchedMortgages (foldl matchStep st (sat # ss)))
      \<subseteq> set (s_unmatchedMortgages st)"
    using step ih by auto
  have d: "\<exists>ms. s_matches (foldl matchStep st (sat # ss)) = s_matches st @ ms"
    using step ih by auto
  from a b c d show ?case by blast
qed

lemma filter_subseq_distinct:
  "subseq new ss \<Longrightarrow> distinct (map f ss) \<Longrightarrow> filter (\<lambda>s. f s \<in> f ` set new) ss = new"
proof (induction rule: list_emb.induct)
  case (list_emb_Nil ys)
  then show ?case by simp
next
  case (list_emb_Cons xs ys y)
  then have "f y \<notin> f ` set xs"
    using list_emb_set [of "(=)" xs ys] by (auto simp: image_iff) 
  with list_emb_Cons show ?case by simp
next
  case (list_emb_Cons2 x y xs ys)
  then have "x = y" by simp
  have sub: "set xs \<subseteq> set ys" using list_emb_Cons2 list_emb_set [of "(=)" xs ys] by auto
  from list_emb_Cons2.prems have nin: "f y \<notin> f ` set ys" and d: "distinct (map f ys)" by auto
  have "filter (\<lambda>s. f s \<in> f ` set (x # xs)) ys = filter (\<lambda>s. f s \<in> f ` set xs) ys"
    by (rule filter_cong) (use nin \<open>x = y\<close> in \<open>auto simp: image_iff\<close>)
  with list_emb_Cons2.IH [OF d] \<open>x = y\<close> show ?case by simp
qed


lemma subseq_set: "subseq xs ys \<Longrightarrow> set xs \<subseteq> set ys"
  using list_emb_set [of "(=)" xs ys] by auto

lemma subseq_distinct: "subseq xs ys \<Longrightarrow> distinct ys \<Longrightarrow> distinct xs"
proof (induction rule: list_emb.induct)
  case (list_emb_Nil ys)
  show ?case by simp
next
  case (list_emb_Cons xs ys y)
  then show ?case by simp
next
  case (list_emb_Cons2 x y xs ys)
  then show ?case using subseq_set [of xs ys] by auto
qed

lemma subseq_distinct_map:
  "subseq new ss \<Longrightarrow> distinct (map f ss) \<Longrightarrow> distinct new"
proof -
  assume s: "subseq new ss" and d: "distinct (map f ss)"
  from d have "distinct ss" by (simp add: distinct_map)
  with s show "distinct new" by (rule subseq_distinct)
qed

text \<open>
  C2 (amended). The mortgages of the matches together with the unmatched mortgages are the
  input mortgages, each as often as in the input. The satisfactions of the matches are a
  subsequence of the input satisfactions, and the unmatched satisfactions are the input
  satisfactions whose instrument number is not that of a matched satisfaction. When the
  instrument numbers of the input satisfactions are pairwise distinct, the matched and the
  unmatched satisfactions together are the input satisfactions, and no satisfaction is in
  two matches; when the input mortgages are pairwise distinct, no mortgage is in two
  matches or both matched and unmatched.
\<close>

theorem matcher_partition:
  "let R = matchSatisfactionsToMortgages mortgages sats in
     mset (map mortgage (matches R)) + mset (unmatchedMortgages R) = mset mortgages
     \<and> subseq (map satisfaction (matches R)) sats
     \<and> unmatchedSatisfactions R
         = filter (\<lambda>s. instrumentNumber s
                     \<notin> instrumentNumber ` set (map satisfaction (matches R))) sats
     \<and> (distinct (map instrumentNumber sats) \<longrightarrow>
           mset (map satisfaction (matches R)) + mset (unmatchedSatisfactions R) = mset sats
           \<and> distinct (map satisfaction (matches R))
           \<and> set (map satisfaction (matches R)) \<inter> set (unmatchedSatisfactions R) = {})
     \<and> (distinct mortgages \<longrightarrow>
           distinct (map mortgage (matches R))
           \<and> set (map mortgage (matches R)) \<inter> set (unmatchedMortgages R) = {})"
proof -
  define st0 where
    "st0 = \<lparr> s_matches = [], s_unmatchedMortgages = mortgages, s_usedSatisfactions = {} \<rparr>"
  define fin where "fin = foldl matchStep st0 sats"
  define R where "R = matchSatisfactionsToMortgages mortgages sats"
  have R: "matches R = s_matches fin" "unmatchedMortgages R = s_unmatchedMortgages fin"
    "unmatchedSatisfactions R
       = filter (\<lambda>s. instrumentNumber s \<notin> s_usedSatisfactions fin) sats"
    by (simp_all add: R_def matchSatisfactionsToMortgages_def fin_def st0_def Let_def)
  note inv = run_invariant [of st0 sats, folded fin_def]
  from inv have a: "mset (map mortgage (matches R)) + mset (unmatchedMortgages R) = mset mortgages"
    by (simp add: R st0_def)
  from inv obtain new where new: "subseq new sats"
    "map satisfaction (s_matches fin) = new"
    "s_usedSatisfactions fin = instrumentNumber ` set new"
    by (auto simp: st0_def)
  have b: "subseq (map satisfaction (matches R)) sats"
    using new by (simp add: R)
  have c: "unmatchedSatisfactions R
         = filter (\<lambda>s. instrumentNumber s
                     \<notin> instrumentNumber ` set (map satisfaction (matches R))) sats"
    using new by (simp add: R)
  have d: "mset (map satisfaction (matches R)) + mset (unmatchedSatisfactions R) = mset sats
           \<and> distinct (map satisfaction (matches R))
           \<and> set (map satisfaction (matches R)) \<inter> set (unmatchedSatisfactions R) = {}"
    if dist: "distinct (map instrumentNumber sats)"
  proof -
    have f: "filter (\<lambda>s. instrumentNumber s \<in> instrumentNumber ` set new) sats = new"
      using new(1) dist by (rule filter_subseq_distinct)
    have "mset (filter (\<lambda>s. instrumentNumber s \<in> instrumentNumber ` set new) sats)
        + mset (filter (\<lambda>s. \<not> instrumentNumber s \<in> instrumentNumber ` set new) sats)
        = mset sats"
      by simp
    then have m: "mset new
        + mset (filter (\<lambda>s. instrumentNumber s \<notin> instrumentNumber ` set new) sats) = mset sats"
      by (simp only: f)
    have dn: "distinct new" using new(1) dist by (rule subseq_distinct_map)
    have disj: "set new \<inter> set (filter (\<lambda>s. instrumentNumber s \<notin> instrumentNumber ` set new) sats) = {}"
      by auto
    from m dn disj show ?thesis using new by (simp add: R)
  qed
  have e: "distinct (map mortgage (matches R))
           \<and> set (map mortgage (matches R)) \<inter> set (unmatchedMortgages R) = {}"
    if dist: "distinct mortgages"
  proof -
    from a have "mset (map mortgage (matches R) @ unmatchedMortgages R) = mset mortgages"
      by simp
    then have "distinct (map mortgage (matches R) @ unmatchedMortgages R)"
      using dist by (metis mset_eq_imp_distinct_iff)
    then show ?thesis by simp
  qed
  from a b c d e show ?thesis
    unfolding Let_def R_def [symmetric] by blast
qed


section \<open>The matcher on the examples\<close>

lemma exSat_simps:
  "instrumentNumber (exSat n t) = Num n" "recordTimestamp (exSat n t) = t"
  "grantors (exSat n t) = []" "satInstrument (exSat n t) = Some ''123456''"
  "satBookPage (exSat n t) = None" "satAmount (exSat n t) = None" "satLender (exSat n t) = None"
  by (simp_all add: exSat_def mkDoc_def blankDoc_def satInstrument_def satBookPage_def
      satAmount_def satLender_def)

lemma exMortgage_simps:
  "instrumentNumber exMortgage = Num 123456" "recordTimestamp exMortgage = 1000"
  "grantors exMortgage = [''SMITH JOHN'']"
  by (simp_all add: exMortgage_def mkDoc_def blankDoc_def)

lemma show_123456: "show_int 123456 = ''123456''"
  by (simp add: show_int_def decimal.simps)

lemma ex_pairScore:
  "pairScore (exSat n t) exMortgage
     = (if t > 1000 then 105 else 80, [''Instrument # exact match''])"
  by (simp add: pairScore_def scoreBeforeDate_def instrumentMatch_def bookPageMatch_def
      amountMatch_def lenderMatch_def grantorMatch_def exSat_simps exMortgage_simps
      show_123456 toLowerCase_def Let_def)

lemma ex_step:
  "t > 1000 \<Longrightarrow>
   matchStep \<lparr> s_matches = ms, s_unmatchedMortgages = [exMortgage], s_usedSatisfactions = U \<rparr>
       (exSat n t)
     = \<lparr> s_matches = ms @
           [\<lparr> satisfaction = exSat n t, mortgage = exMortgage, score = 105,
              confidence = ''high'', matchReasons = [''Instrument # exact match''] \<rparr>],
         s_unmatchedMortgages = [], s_usedSatisfactions = insert (Num n) U \<rparr>"
  by (simp add: matchStep_def acceptMatch_def ex_pairScore splice1_def exSat_simps)

lemma ex_step_empty:
  "matchStep \<lparr> s_matches = ms, s_unmatchedMortgages = [], s_usedSatisfactions = U \<rparr> sat
     = \<lparr> s_matches = ms, s_unmatchedMortgages = [], s_usedSatisfactions = U \<rparr>"
  by (simp add: matchStep_def)

lemma ex_run:
  "t > 1000 \<Longrightarrow>
   matchSatisfactionsToMortgages [exMortgage] [exSat n t, exSat n' t']
     = \<lparr> matches =
           [\<lparr> satisfaction = exSat n t, mortgage = exMortgage, score = 105,
              confidence = ''high'', matchReasons = [''Instrument # exact match''] \<rparr>],
         unmatchedMortgages = [],
         unmatchedSatisfactions = (if n' = n then [] else [exSat n' t']) \<rparr>"
  by (simp add: matchSatisfactionsToMortgages_def ex_step ex_step_empty exSat_simps)

text \<open>
  C2 as stated fails when two satisfactions carry the same instrument number: the second one
  is in no match and is not reported unmatched either.
\<close>

theorem matcher_partition_counterexample:
  "map satisfaction
       (matches (matchSatisfactionsToMortgages [exMortgage] [exSat 700001 2000, exSat 700001 3000]))
     = [exSat 700001 2000]
   \<and> unmatchedSatisfactions
       (matchSatisfactionsToMortgages [exMortgage] [exSat 700001 2000, exSat 700001 3000]) = []
   \<and> exSat 700001 3000 \<noteq> exSat 700001 2000"
proof -
  have "recordTimestamp (exSat 700001 3000) \<noteq> recordTimestamp (exSat 700001 2000)"
    by (simp add: exSat_simps)
  then have "exSat 700001 3000 \<noteq> exSat 700001 2000" by auto
  then show ?thesis by (simp add: ex_run)
qed

theorem matcher_partition_witness:
  "distinct (map instrumentNumber [exSat 700001 2000, exSat 700002 3000])
   \<and> distinct [exMortgage]
   \<and> mset (map satisfaction
        (matches (matchSatisfactionsToMortgages [exMortgage] [exSat 700001 2000, exSat 700002 3000])))
     + mset (unmatchedSatisfactions
        (matchSatisfactionsToMortgages [exMortgage] [exSat 700001 2000, exSat 700002 3000]))
     = {#exSat 700001 2000, exSat 700002 3000#}
   \<and> mset (map mortgage
        (matches (matchSatisfactionsToMortgages [exMortgage] [exSat 700001 2000, exSat 700002 3000])))
     + mset (unmatchedMortgages
        (matchSatisfactionsToMortgages [exMortgage] [exSat 700001 2000, exSat 700002 3000]))
     = {#exMortgage#}"
proof -
  have d: "distinct (map instrumentNumber [exSat 700001 2000, exSat 700002 3000])"
    by (simp add: exSat_simps)
  note P = matcher_partition [of "[exMortgage]" "[exSat 700001 2000, exSat 700002 3000]",
      unfolded Let_def]
  from P d have s: "mset (map satisfaction
        (matches (matchSatisfactionsToMortgages [exMortgage] [exSat 700001 2000, exSat 700002 3000])))
     + mset (unmatchedSatisfactions
        (matchSatisfactionsToMortgages [exMortgage] [exSat 700001 2000, exSat 700002 3000]))
     = mset [exSat 700001 2000, exSat 700002 3000]"
    by blast
  from P have m: "mset (map mortgage
        (matches (matchSatisfactionsToMortgages [exMortgage] [exSat 700001 2000, exSat 700002 3000])))
     + mset (unmatchedMortgages
        (matchSatisfactionsToMortgages [exMortgage] [exSat 700001 2000, exSat 700002 3000]))
     = mset [exMortgage]"
    by blast
  from s have s': "mset (map satisfaction
        (matches (matchSatisfactionsToMortgages [exMortgage] [exSat 700001 2000, exSat 700002 3000])))
     + mset (unmatchedSatisfactions
        (matchSatisfactionsToMortgages [exMortgage] [exSat 700001 2000, exSat 700002 3000]))
     = {#exSat 700001 2000, exSat 700002 3000#}"
    by (simp only: mset.simps add_mset_commute)
  from m have m': "mset (map mortgage
        (matches (matchSatisfactionsToMortgages [exMortgage] [exSat 700001 2000, exSat 700002 3000])))
     + mset (unmatchedMortgages
        (matchSatisfactionsToMortgages [exMortgage] [exSat 700001 2000, exSat 700002 3000]))
     = {#exMortgage#}"
    by (simp only: mset.simps)
  have "distinct [exMortgage]" by simp
  with d s' m' show ?thesis by blast
qed


section \<open>Instrument-number equality\<close>

lemma show_int_0: "show_int 0 = ''0''"
  by (simp add: show_int_def decimal.simps)

lemma extracted_truthy:
  assumes "isInstrumentRef n" and "n = js_String v"
  shows "truthy v"
proof (cases v)
  case (Num k)
  show ?thesis
  proof (cases "k = 0")
    case True
    with assms Num show ?thesis by (simp add: isInstrumentRef_def show_int_0)
  next
    case False
    with Num show ?thesis by simp
  qed
next
  case (Str s)
  with assms show ?thesis by (auto simp: isInstrumentRef_def)
qed (use assms in \<open>auto simp: isInstrumentRef_def split: if_splits\<close>)

lemma instrumentMatch_extracted:
  "satInstrument sat = Some n \<Longrightarrow> isInstrumentRef n \<Longrightarrow> n = js_String (instrumentNumber mtg)
     \<Longrightarrow> instrumentMatch sat mtg"
  using extracted_truthy [of n "instrumentNumber mtg"]
  by (auto simp: instrumentMatch_def isInstrumentRef_def)

lemma score_instrument: "instrumentMatch sat mtg \<Longrightarrow> 100 \<le> fst (scoreBeforeDate sat mtg)"
  by (simp add: scoreBeforeDate_def Let_def)

lemma score_date: "fst (scoreBeforeDate sat mtg) - 20 \<le> fst (pairScore sat mtg)"
  by (simp add: pairScore_def split_def Let_def)

lemma score_other:
  "\<not> instrumentMatch sat mtg \<Longrightarrow> \<not> bookPageMatch sat mtg \<Longrightarrow> fst (pairScore sat mtg) \<le> 65"
  by (simp add: pairScore_def scoreBeforeDate_def Let_def)

lemma step_accepts:
  assumes "mtg \<in> set (s_unmatchedMortgages st)" and "80 \<le> fst (pairScore sat mtg)"
  shows "\<exists>m. s_matches (matchStep st sat) = s_matches st @ [m]
      \<and> satisfaction m = sat \<and> 80 \<le> score m
      \<and> score m = fst (pairScore sat (mortgage m))
      \<and> mortgage m \<in> set (s_unmatchedMortgages st)
      \<and> (\<forall>m' \<in> set (s_unmatchedMortgages st). fst (pairScore sat m') \<le> score m)"
proof -
  from assms(2) have pos: "0 < fst (pairScore sat mtg)" by simp
  from scan_found [OF assms(1) pos] obtain b s where
    r: "scanMortgages sat (s_unmatchedMortgages st) 0 (None, 0) = (Some b, s)" and
    le: "fst (pairScore sat mtg) \<le> s" and
    i: "b_index b < length (s_unmatchedMortgages st)" and
    n: "s_unmatchedMortgages st ! b_index b = b_mortgage b" and
    p: "pairScore sat (b_mortgage b) = (s, b_matchReasons b)"
    by blast
  from le assms(2) have "30 \<le> s" "80 \<le> s" by simp_all
  then have eq: "matchStep st sat = acceptMatch st sat b s"
    by (simp add: matchStep_def r)
  from i n have mem: "b_mortgage b \<in> set (s_unmatchedMortgages st)"
    using nth_mem by metis
  let ?m = "\<lparr> satisfaction = sat, mortgage = b_mortgage b, score = s,
      confidence = (if s \<ge> 90 then ''high'' else if s \<ge> 50 then ''medium'' else ''low''),
      matchReasons = b_matchReasons b \<rparr>"
  have "s_matches (matchStep st sat) = s_matches st @ [?m]"
    by (simp add: eq acceptMatch_def)
  moreover have "satisfaction ?m = sat \<and> 80 \<le> score ?m
      \<and> score ?m = fst (pairScore sat (mortgage ?m))
      \<and> mortgage ?m \<in> set (s_unmatchedMortgages st)"
    using \<open>80 \<le> s\<close> p mem by simp
  moreover have "\<forall>m' \<in> set (s_unmatchedMortgages st). fst (pairScore sat m') \<le> score ?m"
  proof
    fix m' assume "m' \<in> set (s_unmatchedMortgages st)"
    from scan_upper [OF this, of sat 0 None 0] show "fst (pairScore sat m') \<le> score ?m"
      by (simp add: r)
  qed
  ultimately show ?thesis by blast
qed

lemma run_accepts:
  assumes "80 \<le> fst (pairScore sat mtg)" and "sat \<in> set ss"
  shows "(\<exists>m \<in> set (s_matches (foldl matchStep st ss)). satisfaction m = sat \<and> 80 \<le> score m)
     \<or> mtg \<notin> set (s_unmatchedMortgages (foldl matchStep st ss))"
  using assms(2)
proof (induction ss arbitrary: st)
  case Nil
  then show ?case by simp
next
  case (Cons x ss)
  let ?st = "matchStep st x"
  note later = run_invariant [of ?st ss]
  show ?case
  proof (cases "x = sat")
    case True
    show ?thesis
    proof (cases "mtg \<in> set (s_unmatchedMortgages st)")
      case True
      from step_accepts [OF True assms(1)] obtain m where
        m: "s_matches (matchStep st sat) = s_matches st @ [m]" "satisfaction m = sat" "80 \<le> score m"
        by blast
      from later obtain ms where "s_matches (foldl matchStep ?st ss) = s_matches ?st @ ms"
        by blast
      with m \<open>x = sat\<close> have "m \<in> set (s_matches (foldl matchStep st (x # ss)))" by simp
      with m show ?thesis by blast
    next
      case False
      have "set (s_unmatchedMortgages (foldl matchStep ?st ss)) \<subseteq> set (s_unmatchedMortgages ?st)"
        using later by blast
      moreover have "set (s_unmatchedMortgages ?st) \<subseteq> set (s_unmatchedMortgages st)"
        using matchStep_invariant [of st x] by blast
      ultimately have "mtg \<notin> set (s_unmatchedMortgages (foldl matchStep st (x # ss)))"
        using False by auto
      then show ?thesis by blast
    qed
  next
    case False
    with Cons.prems have "sat \<in> set ss" by simp
    from Cons.IH [OF this, of ?st] show ?thesis by simp
  qed
qed

text \<open>
  C1 (amended). Let the satisfaction's extracted \<open>satisfiedInstrumentNumber\<close> (six or more
  digits) equal the mortgage's instrument number as a string. Then the pair scores at least
  100 before the date logic and at least 80 after it, whatever the record times. When the
  satisfaction's round comes and the mortgage is still unmatched, the satisfaction is
  accepted with a score of at least 80, for the highest-scoring unmatched mortgage; that is
  this mortgage when every other unmatched mortgage scores lower, and a mortgage with
  another instrument number scores at most 65 when the satisfaction has no book/page
  reference. Over a whole run, the satisfaction is matched with a score of at least 80
  unless the mortgage has been taken by an earlier satisfaction.
\<close>

theorem instrument_match_wins:
  assumes "satInstrument sat = Some n" and "isInstrumentRef n"
    and "n = js_String (instrumentNumber mtg)"
  shows "100 \<le> fst (scoreBeforeDate sat mtg) \<and> 80 \<le> fst (pairScore sat mtg)
    \<and> (\<forall>st. mtg \<in> set (s_unmatchedMortgages st) \<longrightarrow>
          (\<exists>m. s_matches (matchStep st sat) = s_matches st @ [m]
             \<and> satisfaction m = sat \<and> 80 \<le> score m
             \<and> score m = fst (pairScore sat (mortgage m))
             \<and> mortgage m \<in> set (s_unmatchedMortgages st)
             \<and> (\<forall>m' \<in> set (s_unmatchedMortgages st). fst (pairScore sat m') \<le> score m)
             \<and> ((\<forall>m' \<in> set (s_unmatchedMortgages st).
                    m' \<noteq> mtg \<longrightarrow> fst (pairScore sat m') < fst (pairScore sat mtg))
                  \<longrightarrow> mortgage m = mtg)))
    \<and> (satBookPage sat = None \<longrightarrow>
          (\<forall>m'. js_String (instrumentNumber m') \<noteq> n \<longrightarrow> fst (pairScore sat m') \<le> 65))
    \<and> (\<forall>mortgages sats. sat \<in> set sats \<and> mtg \<in> set mortgages \<longrightarrow>
          (\<exists>m \<in> set (matches (matchSatisfactionsToMortgages mortgages sats)).
              satisfaction m = sat \<and> 80 \<le> score m)
          \<or> mtg \<notin> set (unmatchedMortgages (matchSatisfactionsToMortgages mortgages sats)))"
proof -
  have im: "instrumentMatch sat mtg"
    using assms by (rule instrumentMatch_extracted)
  have a: "100 \<le> fst (scoreBeforeDate sat mtg)" using im by (rule score_instrument)
  have b: "80 \<le> fst (pairScore sat mtg)" using a score_date [of sat mtg] by simp
  have c: "\<exists>m. s_matches (matchStep st sat) = s_matches st @ [m]
             \<and> satisfaction m = sat \<and> 80 \<le> score m
             \<and> score m = fst (pairScore sat (mortgage m))
             \<and> mortgage m \<in> set (s_unmatchedMortgages st)
             \<and> (\<forall>m' \<in> set (s_unmatchedMortgages st). fst (pairScore sat m') \<le> score m)
             \<and> ((\<forall>m' \<in> set (s_unmatchedMortgages st).
                    m' \<noteq> mtg \<longrightarrow> fst (pairScore sat m') < fst (pairScore sat mtg))
                  \<longrightarrow> mortgage m = mtg)"
    if mem: "mtg \<in> set (s_unmatchedMortgages st)" for st
  proof -
    from step_accepts [OF mem b] obtain m where
      m: "s_matches (matchStep st sat) = s_matches st @ [m]" "satisfaction m = sat"
        "80 \<le> score m" "score m = fst (pairScore sat (mortgage m))"
        "mortgage m \<in> set (s_unmatchedMortgages st)"
      and top: "\<forall>m' \<in> set (s_unmatchedMortgages st). fst (pairScore sat m') \<le> score m"
      by blast
    have win: "mortgage m = mtg"
      if lower: "\<forall>m' \<in> set (s_unmatchedMortgages st).
              m' \<noteq> mtg \<longrightarrow> fst (pairScore sat m') < fst (pairScore sat mtg)"
    proof (rule ccontr)
      assume "mortgage m \<noteq> mtg"
      with lower m(5) have "fst (pairScore sat (mortgage m)) < fst (pairScore sat mtg)" by blast
      with m(4) top mem show False by fastforce
    qed
    from m top win show ?thesis by blast
  qed
  have d: "fst (pairScore sat m') \<le> 65"
    if "satBookPage sat = None" and ne: "js_String (instrumentNumber m') \<noteq> n" for m'
  proof -
    from that(1) have "\<not> bookPageMatch sat m'" by (simp add: bookPageMatch_def)
    moreover from ne assms(1) have "\<not> instrumentMatch sat m'"
      by (auto simp: instrumentMatch_def)
    ultimately show ?thesis by (simp add: score_other)
  qed
  have e: "(\<exists>m \<in> set (matches (matchSatisfactionsToMortgages mortgages sats)).
              satisfaction m = sat \<and> 80 \<le> score m)
          \<or> mtg \<notin> set (unmatchedMortgages (matchSatisfactionsToMortgages mortgages sats))"
    if "sat \<in> set sats" for mortgages sats
    using run_accepts [OF b that,
        of "\<lparr> s_matches = [], s_unmatchedMortgages = mortgages, s_usedSatisfactions = {} \<rparr>"]
    by (simp add: matchSatisfactionsToMortgages_def Let_def)
  from a b c d e show ?thesis by blast
qed


lemma ref_123456: "isInstrumentRef ''123456''"
  by (simp add: isInstrumentRef_def)

theorem instrument_match_wins_witness:
  "satInstrument (exSat 700001 500) = Some ''123456'' \<and> isInstrumentRef ''123456''
   \<and> ''123456'' = js_String (instrumentNumber exMortgage)
   \<and> recordTimestamp (exSat 700001 500) < recordTimestamp exMortgage
   \<and> 80 \<le> fst (pairScore (exSat 700001 500) exMortgage)
   \<and> (\<exists>m. s_matches (matchStep
              \<lparr> s_matches = [], s_unmatchedMortgages = [exMortgage], s_usedSatisfactions = {} \<rparr>
              (exSat 700001 500)) = [m]
          \<and> satisfaction m = exSat 700001 500 \<and> mortgage m = exMortgage \<and> 80 \<le> score m)"
proof -
  let ?sat = "exSat 700001 500"
  let ?st = "\<lparr> s_matches = [], s_unmatchedMortgages = [exMortgage], s_usedSatisfactions = {} \<rparr>"
  have h1: "satInstrument ?sat = Some ''123456''" by (simp add: exSat_simps)
  have h3: "''123456'' = js_String (instrumentNumber exMortgage)"
    by (simp add: exMortgage_simps show_123456)
  have t: "recordTimestamp ?sat < recordTimestamp exMortgage"
    by (simp add: exSat_simps exMortgage_simps)
  note W = instrument_match_wins [OF h1 ref_123456 h3]
  from W have s: "80 \<le> fst (pairScore ?sat exMortgage)" by blast
  have mem: "exMortgage \<in> set (s_unmatchedMortgages ?st)" by simp
  have only: "\<forall>m' \<in> set (s_unmatchedMortgages ?st).
      m' \<noteq> exMortgage \<longrightarrow> fst (pairScore ?sat m') < fst (pairScore ?sat exMortgage)"
    by simp
  from W mem only have "\<exists>m. s_matches (matchStep ?st ?sat) = s_matches ?st @ [m]
      \<and> satisfaction m = ?sat \<and> 80 \<le> score m \<and> mortgage m = exMortgage"
    by blast
  then have "\<exists>m. s_matches (matchStep ?st ?sat) = [m]
      \<and> satisfaction m = ?sat \<and> mortgage m = exMortgage \<and> 80 \<le> score m"
    by auto
  with h1 ref_123456 h3 t s show ?thesis by blast
qed

text \<open>
  C1 as stated fails when an earlier satisfaction has taken the mortgage: the second
  satisfaction refers to the mortgage's instrument number, the pair scores 105, and the
  satisfaction is left unmatched.
\<close>

theorem instrument_match_wins_counterexample:
  "satInstrument (exSat 700002 3000) = Some (js_String (instrumentNumber exMortgage))
   \<and> fst (pairScore (exSat 700002 3000) exMortgage) = 105
   \<and> map satisfaction
       (matches (matchSatisfactionsToMortgages [exMortgage] [exSat 700001 2000, exSat 700002 3000]))
     = [exSat 700001 2000]
   \<and> unmatchedSatisfactions
       (matchSatisfactionsToMortgages [exMortgage] [exSat 700001 2000, exSat 700002 3000])
     = [exSat 700002 3000]"
  by (simp add: ex_run ex_pairScore exSat_simps exMortgage_simps show_123456)


section \<open>Summary\<close>

lemma riskLevel_generateSummary:
  "riskLevel (generateSummary docs chain analysis liens flags) =
     (if \<exists>f \<in> set flags. severity f = ''high'' then ''HIGH''
      else if (\<exists>f \<in> set flags. severity f = ''medium'') \<or> liens \<noteq> []
              \<or> length (open analysis) > 1
           then ''MEDIUM''
      else ''LOW'')"
  by (simp add: generateSummary_def Let_def filter_empty_conv)

lemma riskLevel_spec_True:
  "riskLevel_spec True flags liens opens =
     (if \<exists>f \<in> set flags. severity f = ''high'' then ''HIGH''
      else if (\<exists>f \<in> set flags. severity f = ''medium'') \<or> liens \<noteq> [] \<or> length opens > 1
           then ''MEDIUM''
      else ''LOW'')"
  by (simp add: riskLevel_spec_def list_ex_iff)

lemma package_summary:
  "t_summary (performTitleSearch scan batch docs)
     = generateSummary docs (t_chainOfTitle (performTitleSearch scan batch docs))
         (t_mortgageAnalysis (performTitleSearch scan batch docs))
         (t_openLiens (performTitleSearch scan batch docs))
         (t_flags (performTitleSearch scan batch docs))"
  by (simp add: performTitleSearch_def Let_def)

text \<open>
  C3 (amended). The risk level is HIGH exactly when a flag of severity high exists;
  otherwise it is MEDIUM when a flag of severity medium exists, or an open lien exists, or
  more than one open mortgage exists; otherwise it is LOW. The test on the open mortgages
  does not depend on the mode: with or without scanning, the risk level of the title
  package is the one the specification gives for scanned mode.
\<close>

theorem riskLevel_cases:
  "riskLevel (generateSummary docs chain analysis liens flags) =
     (if \<exists>f \<in> set flags. severity f = ''high'' then ''HIGH''
      else if (\<exists>f \<in> set flags. severity f = ''medium'') \<or> liens \<noteq> []
              \<or> length (open analysis) > 1
           then ''MEDIUM''
      else ''LOW'')
   \<and> (riskLevel (generateSummary docs chain analysis liens flags) = ''HIGH''
        \<longleftrightarrow> (\<exists>f \<in> set flags. severity f = ''high''))
   \<and> riskLevel (generateSummary docs chain analysis liens flags)
       = riskLevel_spec True flags liens (open analysis)
   \<and> (\<forall>scanDocuments batchExtract.
         riskLevel (t_summary (performTitleSearch scanDocuments batchExtract docs))
           = riskLevel_spec True
               (t_flags (performTitleSearch scanDocuments batchExtract docs))
               (t_openLiens (performTitleSearch scanDocuments batchExtract docs))
               (open (t_mortgageAnalysis (performTitleSearch scanDocuments batchExtract docs))))"
proof -
  have a: "riskLevel (generateSummary docs chain analysis liens flags) =
     (if \<exists>f \<in> set flags. severity f = ''high'' then ''HIGH''
      else if (\<exists>f \<in> set flags. severity f = ''medium'') \<or> liens \<noteq> []
              \<or> length (open analysis) > 1
           then ''MEDIUM''
      else ''LOW'')"
    by (rule riskLevel_generateSummary)
  have b: "riskLevel (generateSummary docs chain analysis liens flags) = ''HIGH''
        \<longleftrightarrow> (\<exists>f \<in> set flags. severity f = ''high'')"
    by (simp add: riskLevel_generateSummary)
  have c: "riskLevel (generateSummary d c' a' l f) = riskLevel_spec True f l (open a')"
    for d c' a' l f
    by (simp only: riskLevel_generateSummary riskLevel_spec_True)
  have d: "riskLevel (t_summary (performTitleSearch scan batch docs))
           = riskLevel_spec True
               (t_flags (performTitleSearch scan batch docs))
               (t_openLiens (performTitleSearch scan batch docs))
               (open (t_mortgageAnalysis (performTitleSearch scan batch docs)))" for scan batch
    by (simp only: package_summary c)
  from a b c d show ?thesis by blast
qed

lemma mtgAt_simps:
  "docTypeShort (mtgAt n t) = ''MTG''" "recordTimestamp (mtgAt n t) = t"
  "docType (mtgAt n t) = ''(MTG) MORTGAGE''" "grantors (mtgAt n t) = []"
  by (simp_all add: mtgAt_def mkDoc_def blankDoc_def)

lemma bucket_MTG: "bucketOf ''MTG'' = Mortgages"
  by (simp add: bucketOf_def)

lemma two_mortgages_groups:
  "groupByDocType [mtgAt 1 100, mtgAt 2 200] Mortgages = [mtgAt 2 200, mtgAt 1 100]"
  "groupByDocType [mtgAt 1 100, mtgAt 2 200] Satisfactions = []"
  "groupByDocType [mtgAt 1 100, mtgAt 2 200] Liens = []"
  "groupByDocType [mtgAt 1 100, mtgAt 2 200] Releases = []"
  by (simp_all add: groupByDocType_bucket mtgAt_simps bucket_MTG)

lemma two_mortgages_flags: "identifyFlags [mtgAt 1 100, mtgAt 2 200] = []"
  by (simp add: identifyFlags_def mtgAt_simps Let_def)

lemma two_mortgages_open:
  "open (analyzeMortgages [mtgAt 2 200, mtgAt 1 100] []) = [mtgAt 2 200, mtgAt 1 100]"
  by (simp add: analyzeMortgages_def)

lemma two_mortgages_package:
  "t_flags (performTitleSearch False id [mtgAt 1 100, mtgAt 2 200]) = []"
  "t_openLiens (performTitleSearch False id [mtgAt 1 100, mtgAt 2 200]) = []"
  "open (t_mortgageAnalysis (performTitleSearch False id [mtgAt 1 100, mtgAt 2 200]))
     = [mtgAt 2 200, mtgAt 1 100]"
  by (simp_all add: performTitleSearch_def Let_def two_mortgages_groups two_mortgages_flags
      two_mortgages_open identifyOpenLiens_def)

text \<open>
  C3 as stated fails without scanning: two mortgages and nothing else give two open
  mortgages by the name-based analysis, no flag and no open lien; the risk level is MEDIUM,
  where the claim gives LOW outside scanned mode.
\<close>

theorem riskLevel_cases_counterexample:
  "riskLevel (t_summary (performTitleSearch False id [mtgAt 1 100, mtgAt 2 200])) = ''MEDIUM''
   \<and> riskLevel_spec False
        (t_flags (performTitleSearch False id [mtgAt 1 100, mtgAt 2 200]))
        (t_openLiens (performTitleSearch False id [mtgAt 1 100, mtgAt 2 200]))
        (open (t_mortgageAnalysis (performTitleSearch False id [mtgAt 1 100, mtgAt 2 200])))
      = ''LOW''"
  by (simp add: package_summary riskLevel_generateSummary two_mortgages_package riskLevel_spec_def)

theorem riskLevel_cases_witness:
  "riskLevel (generateSummary [] [] (analyzeMortgages [mtgAt 2 200, mtgAt 1 100] []) [] [])
     = ''MEDIUM''
   \<and> riskLevel (generateSummary [] [] (analyzeMortgages [] []) [] []) = ''LOW''
   \<and> riskLevel (generateSummary [taxDeed] [] (analyzeMortgages [] []) [] (identifyFlags [taxDeed]))
     = ''HIGH''"
proof -
  have f: "\<exists>f \<in> set (identifyFlags [taxDeed]). severity f = ''high''"
    by (simp add: identifyFlags_def taxDeed_def mkDoc_def blankDoc_def Let_def)
  have o: "open (analyzeMortgages [] []) = []" by (simp add: analyzeMortgages_def)
  from riskLevel_cases [of "[]" "[]" "analyzeMortgages [mtgAt 2 200, mtgAt 1 100] []" "[]" "[]"]
  have 1: "riskLevel (generateSummary [] [] (analyzeMortgages [mtgAt 2 200, mtgAt 1 100] []) [] [])
     = ''MEDIUM''"
    by (simp add: two_mortgages_open)
  from riskLevel_cases [of "[]" "[]" "analyzeMortgages [] []" "[]" "[]"]
  have 2: "riskLevel (generateSummary [] [] (analyzeMortgages [] []) [] []) = ''LOW''"
    by (simp add: o)
  from riskLevel_cases [of "[taxDeed]" "[]" "analyzeMortgages [] []" "[]" "identifyFlags [taxDeed]"] f
  have 3: "riskLevel (generateSummary [taxDeed] [] (analyzeMortgages [] []) [] (identifyFlags [taxDeed]))
     = ''HIGH''"
    by blast
  from 1 2 3 show ?thesis by blast
qed


section \<open>Tax documents\<close>

lemma tax_flag:
  assumes "d \<in> set docs" and "js_includes (docType d) ''TAX''"
  shows "\<exists>f \<in> set (identifyFlags docs).
           severity f = ''high'' \<and> type f = ''tax_lien'' \<and> d \<in> set (documents f)"
proof -
  let ?tax = "filter (\<lambda>d. docTypeShort d = ''LNCORPTX'' \<or> js_includes (docType d) ''TAX'') docs"
  let ?f = "\<lparr> severity = ''high'', type = ''tax_lien'',
              message = ''Found '' @ show_int (int (length ?tax)) @ '' tax-related lien(s)'',
              documents = ?tax \<rparr>"
  from assms have mem: "d \<in> set ?tax" by simp
  then have "?tax \<noteq> []" by (metis empty_iff list.set(1))
  then have "?f \<in> set (identifyFlags docs)"
    by (simp add: identifyFlags_def Let_def)
  moreover have "severity ?f = ''high'' \<and> type ?f = ''tax_lien'' \<and> d \<in> set (documents ?f)"
    using mem by simp
  ultimately show ?thesis by blast
qed

lemma taxdeed_label:
  "TAX_DEED \<in> set TITLE_DOC_TYPES" "js_includes TAX_DEED ''TAX''"
  "firstParen TAX_DEED = Some ''TAXDEED''" "''TAXDEED'' \<notin> set tableCodes"
  "bucketOf ''TAXDEED'' = Other"
  by (simp_all add: TITLE_DOC_TYPES_def TAX_DEED_def tableCodes_def bucketOf_def)

text \<open>
  On Documents of the data model: a document whose \<open>docType\<close> contains \<open>TAX\<close> makes the
  flag engine emit a flag of severity high and type tax_lien that lists the document, and
  the risk level of the summary over these flags is HIGH, whatever the chain, the mortgage
  analysis and the open liens. The label of a tax deed is in the document types a title
  search asks for, it contains \<open>TAX\<close>, its short code \<open>TAXDEED\<close> has no \<open>case\<close> label, and a
  document with that short code is in the bucket \<open>Other\<close> and not in \<open>Deeds\<close>.
\<close>

theorem tax_flag_labelled:
  "(\<forall>d \<in> set docs. js_includes (docType d) ''TAX'' \<longrightarrow>
       (\<exists>f \<in> set (identifyFlags docs).
           severity f = ''high'' \<and> type f = ''tax_lien'' \<and> d \<in> set (documents f))
       \<and> riskLevel (generateSummary docs chain analysis liens (identifyFlags docs)) = ''HIGH''
       \<and> riskLevel (t_summary (performTitleSearch scanDocuments batchExtract docs)) = ''HIGH'')
   \<and> TAX_DEED \<in> set TITLE_DOC_TYPES \<and> js_includes TAX_DEED ''TAX''
   \<and> docTypeShortOf (Str TAX_DEED) = Inr (Str ''TAXDEED'')
   \<and> ''TAXDEED'' \<notin> set tableCodes \<and> bucketOf ''TAXDEED'' = Other
   \<and> (\<forall>d \<in> set docs. docTypeShort d = ''TAXDEED'' \<longrightarrow>
         d \<in> set (groupByDocType docs Other) \<and> d \<notin> set (groupByDocType docs Deeds))"
proof -
  have a: "(\<exists>f \<in> set (identifyFlags docs).
           severity f = ''high'' \<and> type f = ''tax_lien'' \<and> d \<in> set (documents f))
       \<and> riskLevel (generateSummary docs chain analysis liens (identifyFlags docs)) = ''HIGH''
       \<and> riskLevel (t_summary (performTitleSearch scanDocuments batchExtract docs)) = ''HIGH''"
    if "d \<in> set docs" "js_includes (docType d) ''TAX''" for d
  proof -
    from tax_flag [OF that] have f: "\<exists>f \<in> set (identifyFlags docs).
           severity f = ''high'' \<and> type f = ''tax_lien'' \<and> d \<in> set (documents f)" .
    then have h: "\<exists>f \<in> set (identifyFlags docs). severity f = ''high''" by blast
    then have r: "riskLevel (generateSummary docs c a l (identifyFlags docs)) = ''HIGH''" for c a l
      by (simp add: riskLevel_generateSummary)
    have fl: "t_flags (performTitleSearch scanDocuments batchExtract docs) = identifyFlags docs"
      by (simp add: performTitleSearch_def Let_def)
    from f r show ?thesis by (simp add: package_summary fl)
  qed
  have b: "docTypeShortOf (Str TAX_DEED) = Inr (Str ''TAXDEED'')"
    by (simp add: taxdeed_label)
  have c: "d \<in> set (groupByDocType docs Other) \<and> d \<notin> set (groupByDocType docs Deeds)"
    if "d \<in> set docs" "docTypeShort d = ''TAXDEED''" for d
    using that by (simp add: groupByDocType_bucket taxdeed_label)
  from a b c taxdeed_label show ?thesis by blast
qed

theorem tax_flag_labelled_example:
  "js_includes (docType taxDeed) ''TAX'' \<and> docTypeShort taxDeed = ''TAXDEED''
   \<and> (\<exists>f \<in> set (identifyFlags [deedA, taxDeed]).
         severity f = ''high'' \<and> type f = ''tax_lien'' \<and> taxDeed \<in> set (documents f))
   \<and> riskLevel (t_summary (performTitleSearch False id [deedA, taxDeed])) = ''HIGH''
   \<and> taxDeed \<in> set (groupByDocType [deedA, taxDeed] Other)
   \<and> taxDeed \<notin> set (groupByDocType [deedA, taxDeed] Deeds)"
proof -
  have t: "js_includes (docType taxDeed) ''TAX''" "docTypeShort taxDeed = ''TAXDEED''"
    by (simp_all add: taxDeed_def mkDoc_def blankDoc_def)
  have m: "taxDeed \<in> set [deedA, taxDeed]" by simp
  note T = tax_flag_labelled [of "[deedA, taxDeed]" "[]" "analyzeMortgages [] []" "[]" False id]
  from T m t(1) have 1: "(\<exists>f \<in> set (identifyFlags [deedA, taxDeed]).
         severity f = ''high'' \<and> type f = ''tax_lien'' \<and> taxDeed \<in> set (documents f))
     \<and> riskLevel (t_summary (performTitleSearch False id [deedA, taxDeed])) = ''HIGH''"
    by blast
  from T m t(2) have 2: "taxDeed \<in> set (groupByDocType [deedA, taxDeed] Other)
     \<and> taxDeed \<notin> set (groupByDocType [deedA, taxDeed] Deeds)"
    by blast
  from t 1 2 show ?thesis by blast
qed


section \<open>Short texts\<close>

lemma length_trim: "length (trim s) \<le> length s"
proof -
  have "length (trim s) = length (dropWhile isSpace (rev (dropWhile isSpace s)))"
    by (simp add: trim_def)
  also have "\<dots> \<le> length (rev (dropWhile isSpace s))" by (rule length_dropWhile_le)
  also have "\<dots> \<le> length s" by (simp add: length_dropWhile_le)
  finally show ?thesis .
qed

text \<open>
  C8. A text of fewer than 50 characters gives, from each of the three parsers and whatever
  the pattern rules would find, the initial record: every nullable field null, every list
  field empty, both boolean flags false, and confidence low. So whatever the short code of
  the document, the data the batch extractor attaches is one of these three records.
\<close>

theorem short_text_all_null:
  assumes "length text < 50"
  shows "parseMortgageText MR text =
           \<lparr> principalAmount = None, lenderName = None, instrumentReferences = [],
             isModification = False, isRefinance = False, maturityDate = None,
             interestRate = None, m_propertyAddress = None, m_confidence = ''low'' \<rparr>
       \<and> parseDeedText DR text =
           \<lparr> consideration = None, d_legalDescription = None, d_propertyAddress = None,
             deedType = None, d_grantors = [], d_grantees = [], d_confidence = ''low'' \<rparr>
       \<and> parseSatisfactionText SR text =
           \<lparr> satisfiedInstrumentNumber = None, satisfiedBookPage = None,
             originalLender = None, originalAmount = None, satisfiedDate = None,
             s_confidence = ''low'' \<rparr>
       \<and> (\<forall>code.
             parseFor \<lparr> mortgageRules = MR, deedRules = DR, satisfactionRules = SR \<rparr> code text
               \<in> {None,
                   Some (MortgageData
                     \<lparr> principalAmount = None, lenderName = None, instrumentReferences = [],
                       isModification = False, isRefinance = False, maturityDate = None,
                       interestRate = None, m_propertyAddress = None, m_confidence = ''low'' \<rparr>),
                   Some (DeedData
                     \<lparr> consideration = None, d_legalDescription = None,
                       d_propertyAddress = None, deedType = None, d_grantors = [],
                       d_grantees = [], d_confidence = ''low'' \<rparr>),
                   Some (SatisfactionData
                     \<lparr> satisfiedInstrumentNumber = None, satisfiedBookPage = None,
                       originalLender = None, originalAmount = None, satisfiedDate = None,
                       s_confidence = ''low'' \<rparr>)})"
proof -
  from assms length_trim [of "text"] have short: "length (trim text) < 50" by simp
  have m: "parseMortgageText MR text =
           \<lparr> principalAmount = None, lenderName = None, instrumentReferences = [],
             isModification = False, isRefinance = False, maturityDate = None,
             interestRate = None, m_propertyAddress = None, m_confidence = ''low'' \<rparr>"
    using short by (simp add: parseMortgageText_def)
  have d: "parseDeedText DR text =
           \<lparr> consideration = None, d_legalDescription = None, d_propertyAddress = None,
             deedType = None, d_grantors = [], d_grantees = [], d_confidence = ''low'' \<rparr>"
    using short by (simp add: parseDeedText_def)
  have s: "parseSatisfactionText SR text =
           \<lparr> satisfiedInstrumentNumber = None, satisfiedBookPage = None,
             originalLender = None, originalAmount = None, satisfiedDate = None,
             s_confidence = ''low'' \<rparr>"
    using short by (simp add: parseSatisfactionText_def)
  have f: "parseFor \<lparr> mortgageRules = MR, deedRules = DR, satisfactionRules = SR \<rparr> code text
               \<in> {None,
                   Some (MortgageData
                     \<lparr> principalAmount = None, lenderName = None, instrumentReferences = [],
                       isModification = False, isRefinance = False, maturityDate = None,
                       interestRate = None, m_propertyAddress = None, m_confidence = ''low'' \<rparr>),
                   Some (DeedData
                     \<lparr> consideration = None, d_legalDescription = None,
                       d_propertyAddress = None, deedType = None, d_grantors = [],
                       d_grantees = [], d_confidence = ''low'' \<rparr>),
                   Some (SatisfactionData
                     \<lparr> satisfiedInstrumentNumber = None, satisfiedBookPage = None,
                       originalLender = None, originalAmount = None, satisfiedDate = None,
                       s_confidence = ''low'' \<rparr>)}" for code
    by (simp add: parseFor_def m d s)
  from m d s f show ?thesis by blast
qed

theorem short_text_all_null_witness:
  "length ''SATISFACTION OF MORTGAGE BOOK 12 PAGE 34'' < 50
   \<and> parseMortgageText eagerMortgageRules ''SATISFACTION OF MORTGAGE BOOK 12 PAGE 34'' =
           \<lparr> principalAmount = None, lenderName = None, instrumentReferences = [],
             isModification = False, isRefinance = False, maturityDate = None,
             interestRate = None, m_propertyAddress = None, m_confidence = ''low'' \<rparr>
   \<and> parseDeedText eagerDeedRules ''SATISFACTION OF MORTGAGE BOOK 12 PAGE 34'' =
           \<lparr> consideration = None, d_legalDescription = None, d_propertyAddress = None,
             deedType = None, d_grantors = [], d_grantees = [], d_confidence = ''low'' \<rparr>
   \<and> parseSatisfactionText eagerSatisfactionRules ''SATISFACTION OF MORTGAGE BOOK 12 PAGE 34'' =
           \<lparr> satisfiedInstrumentNumber = None, satisfiedBookPage = None,
             originalLender = None, originalAmount = None, satisfiedDate = None,
             s_confidence = ''low'' \<rparr>"
proof -
  have l: "length ''SATISFACTION OF MORTGAGE BOOK 12 PAGE 34'' < 50" by simp
  from l short_text_all_null [OF l, of eagerMortgageRules eagerDeedRules eagerSatisfactionRules]
  show ?thesis by blast
qed

section \<open>Record normalizer\<close>

lemma run_split:
  "cs = takeWhile (\<lambda>x. x \<noteq> CHR '')'') cs @ dropWhile (\<lambda>x. x \<noteq> CHR '')'') cs"
  by simp

lemma head_run:
  assumes "cs = t @ CHR '')'' # post" and "CHR '')'' \<notin> set t"
  shows "takeWhile (\<lambda>x. x \<noteq> CHR '')'') cs = t"
    and "dropWhile (\<lambda>x. x \<noteq> CHR '')'') cs = CHR '')'' # post"
  using assms by (auto simp: takeWhile_tail dropWhile_append3)

lemma run_head:
  assumes "dropWhile (\<lambda>x. x \<noteq> CHR '')'') cs \<noteq> []"
  obtains post where "cs = takeWhile (\<lambda>x. x \<noteq> CHR '')'') cs @ CHR '')'' # post"
proof -
  let ?d = "dropWhile (\<lambda>x. x \<noteq> CHR '')'') cs"
  from assms have "\<not> (hd ?d \<noteq> CHR '')'')" by (rule hd_dropWhile)
  with assms have "?d = CHR '')'' # tl ?d" by (cases ?d) auto
  with run_split [of cs] have "cs = takeWhile (\<lambda>x. x \<noteq> CHR '')'') cs @ CHR '')'' # tl ?d"
    by simp
  then show thesis by (rule that)
qed

lemma parenthesized_Cons:
  "parenthesized (c # cs) pre t post \<longleftrightarrow>
     (pre = [] \<and> c = CHR ''('' \<and> cs = t @ CHR '')'' # post \<and> t \<noteq> [] \<and> CHR '')'' \<notin> set t)
     \<or> (\<exists>pre'. pre = c # pre' \<and> parenthesized cs pre' t post)"
  by (cases pre) (auto simp: parenthesized_def)

lemma firstParen_None:
  "firstParen s = None \<longleftrightarrow> \<not> (\<exists>pre t post. parenthesized s pre t post)"
proof (induction s)
  case Nil
  show ?case by (simp add: parenthesized_def)
next
  case (Cons c cs)
  let ?t = "takeWhile (\<lambda>x. x \<noteq> CHR '')'') cs"
  let ?d = "dropWhile (\<lambda>x. x \<noteq> CHR '')'') cs"
  show ?case
  proof (cases "c = CHR ''('' \<and> ?t \<noteq> [] \<and> ?d \<noteq> []")
    case True
    then obtain post where "cs = ?t @ CHR '')'' # post" using run_head by blast
    moreover have "CHR '')'' \<notin> set ?t" using set_takeWhileD by fastforce
    ultimately have "parenthesized (c # cs) [] ?t post"
      using True by (simp add: parenthesized_Cons)
    with True show ?thesis by auto
  next
    case False
    have nohead: "\<not> (c = CHR ''('' \<and> cs = t @ CHR '')'' # post \<and> t \<noteq> [] \<and> CHR '')'' \<notin> set t)"
      for t post
    proof
      assume h: "c = CHR ''('' \<and> cs = t @ CHR '')'' # post \<and> t \<noteq> [] \<and> CHR '')'' \<notin> set t"
      then have "takeWhile (\<lambda>x. x \<noteq> CHR '')'') cs = t"
        and "dropWhile (\<lambda>x. x \<noteq> CHR '')'') cs = CHR '')'' # post"
        using head_run [of cs t post] by blast+
      with h False show False by simp
    qed
    have "(\<exists>pre t post. parenthesized (c # cs) pre t post)
        \<longleftrightarrow> (\<exists>pre t post. parenthesized cs pre t post)"
    proof
      assume "\<exists>pre t post. parenthesized (c # cs) pre t post"
      then obtain pre t post where "parenthesized (c # cs) pre t post" by blast
      with nohead [of t post] obtain pre' where "parenthesized cs pre' t post"
        unfolding parenthesized_Cons by blast
      then show "\<exists>pre t post. parenthesized cs pre t post" by blast
    next
      assume "\<exists>pre t post. parenthesized cs pre t post"
      then obtain pre t post where "parenthesized cs pre t post" by blast
      then have "parenthesized (c # cs) (c # pre) t post"
        unfolding parenthesized_Cons by blast
      then show "\<exists>pre t post. parenthesized (c # cs) pre t post" by blast
    qed
    moreover from False have "firstParen (c # cs) = firstParen cs" by auto
    ultimately show ?thesis by (simp only: Cons.IH)
  qed
qed

lemma firstParen_Some:
  "firstParen s = Some t \<Longrightarrow>
     \<exists>pre post. parenthesized s pre t post
       \<and> (\<forall>pre' t' post'. parenthesized s pre' t' post' \<longrightarrow>
             length pre \<le> length pre' \<and> (pre' = pre \<longrightarrow> t' = t \<and> post' = post))"
proof (induction s)
  case Nil
  then show ?case by simp
next
  case (Cons c cs)
  let ?t = "takeWhile (\<lambda>x. x \<noteq> CHR '')'') cs"
  let ?d = "dropWhile (\<lambda>x. x \<noteq> CHR '')'') cs"
  show ?case
  proof (cases "c = CHR ''('' \<and> ?t \<noteq> [] \<and> ?d \<noteq> []")
    case True
    with Cons.prems have t: "t = ?t" by simp
    from True obtain post where cs: "cs = ?t @ CHR '')'' # post" using run_head by blast
    have nin: "CHR '')'' \<notin> set ?t" using set_takeWhileD by fastforce
    have c1: "cs = t @ CHR '')'' # post" by (subst t, rule cs)
    have c2: "t \<noteq> []" "CHR '')'' \<notin> set t" "c = CHR ''(''"
      using True nin unfolding t by blast+
    have p: "parenthesized (c # cs) [] t post"
      unfolding parenthesized_Cons using c1 c2 by blast
    have u: "length [] \<le> length pre' \<and> (pre' = [] \<longrightarrow> t' = t \<and> post' = post)"
      if q: "parenthesized (c # cs) pre' t' post'" for pre' t' post'
    proof (cases pre')
      case Nil
      with q have c': "cs = t' @ CHR '')'' # post'" "CHR '')'' \<notin> set t'"
        unfolding parenthesized_Cons by blast+
      have "?t = t'" "?d = CHR '')'' # post'" using head_run [OF c'] by blast+
      moreover have "?t = t" "?d = CHR '')'' # post"
        using head_run [OF c1 c2(2)] by blast+
      ultimately show ?thesis by simp
    next
      case (Cons a list)
      then show ?thesis by simp
    qed
    from p u show ?thesis by blast
  next
    case False
    then have "firstParen (c # cs) = firstParen cs" by auto
    with Cons.prems have "firstParen cs = Some t" by simp
    from Cons.IH [OF this] obtain pre post where
      p: "parenthesized cs pre t post" and
      m: "\<And>pre' t' post'. parenthesized cs pre' t' post' \<Longrightarrow>
             length pre \<le> length pre' \<and> (pre' = pre \<longrightarrow> t' = t \<and> post' = post)"
      by blast
    have nohead: "\<not> (c = CHR ''('' \<and> cs = t' @ CHR '')'' # post' \<and> t' \<noteq> [] \<and> CHR '')'' \<notin> set t')"
      for t' post'
    proof
      assume h: "c = CHR ''('' \<and> cs = t' @ CHR '')'' # post' \<and> t' \<noteq> [] \<and> CHR '')'' \<notin> set t'"
      then have "?t = t'" and "?d = CHR '')'' # post'"
        using head_run [of cs t' post'] by blast+
      with h False show False by simp
    qed
    have p': "parenthesized (c # cs) (c # pre) t post"
      unfolding parenthesized_Cons using p by blast
    have m': "length (c # pre) \<le> length pre'
        \<and> (pre' = c # pre \<longrightarrow> t' = t \<and> post' = post)"
      if q: "parenthesized (c # cs) pre' t' post'" for pre' t' post'
    proof -
      from q nohead [of t' post'] obtain pre'' where
        e: "pre' = c # pre''" and r: "parenthesized cs pre'' t' post'"
        unfolding parenthesized_Cons by blast
      from m [OF r] e show ?thesis by simp
    qed
    from p' m' show ?thesis by blast
  qed
qed


lemma docTypeShort_string:
  "\<exists>v. docTypeShortOf (Str s) = Inr (Str v)
     \<and> ((\<exists>pre t post. parenthesized s pre t post) \<longrightarrow>
          (\<exists>pre post. parenthesized s pre v post
             \<and> (\<forall>pre' t' post'. parenthesized s pre' t' post' \<longrightarrow> length pre \<le> length pre')))
     \<and> (\<not> (\<exists>pre t post. parenthesized s pre t post) \<longrightarrow> v = s)"
proof (cases "firstParen s")
  case None
  then have "\<not> (\<exists>pre t post. parenthesized s pre t post)"
    using firstParen_None [of s] by blast
  with None show ?thesis by simp
next
  case (Some t)
  from firstParen_Some [OF Some] obtain pre post where
    p: "parenthesized s pre t post" and
    m: "\<forall>pre' t' post'. parenthesized s pre' t' post' \<longrightarrow> length pre \<le> length pre'"
    by blast
  have "docTypeShortOf (Str s) = Inr (Str t)" by (simp add: Some)
  with p m show ?thesis by blast
qed

text \<open>
  C9 (amended). For a raw record whose \<open>DocType\<close> is absent (undefined or null) or a string,
  \<open>parseRecord\<close> returns a document and raises nothing. A party list that is missing (or
  otherwise falsy) becomes the empty list; every other field is the raw value, so a missing
  number stays absent. For a string \<open>DocType\<close>, \<open>docTypeShort\<close> is the content of the first
  (leftmost) non-empty parenthesized substring, and the whole string when there is none; an
  absent \<open>DocType\<close> gives an absent \<open>docTypeShort\<close>.
\<close>

theorem parseRecord_total:
  assumes "DocType r = Undefined \<or> DocType r = Null \<or> (\<exists>s. DocType r = Str s)"
  shows "\<exists>doc. parseRecord formatDate r = Inr doc
     \<and> p_grantors doc = (if truthy (PartiesOne r) then PartiesOne r else Arr [])
     \<and> p_grantees doc = (if truthy (PartiesTwo r) then PartiesTwo r else Arr [])
     \<and> (PartiesOne r = Undefined \<longrightarrow> p_grantors doc = Arr [])
     \<and> (PartiesTwo r = Undefined \<longrightarrow> p_grantees doc = Arr [])
     \<and> p_instrumentNumber doc = Instrument r \<and> p_recordTimestamp doc = RecordDate r
     \<and> p_recordDate doc = formatDate (RecordDate r) \<and> p_docType doc = DocType r
     \<and> p_legalDescription doc = Legal r \<and> p_salesPrice doc = SalesPrice r
     \<and> p_pageCount doc = PageCount r \<and> p_documentId doc = ID r \<and> p_uuid doc = UUID r
     \<and> p_bookNum doc = BookNum r \<and> p_pageNum doc = PageNum r
     \<and> (\<forall>s. DocType r = Str s \<longrightarrow>
           (\<exists>v. p_docTypeShort doc = Str v
              \<and> ((\<exists>pre t post. parenthesized s pre t post) \<longrightarrow>
                   (\<exists>pre post. parenthesized s pre v post
                      \<and> (\<forall>pre' t' post'. parenthesized s pre' t' post'
                            \<longrightarrow> length pre \<le> length pre')))
              \<and> (\<not> (\<exists>pre t post. parenthesized s pre t post) \<longrightarrow> v = s)))
     \<and> (DocType r = Undefined \<or> DocType r = Null \<longrightarrow> p_docTypeShort doc = DocType r)"
proof -
  define Q where "Q = (\<lambda>short.
       (\<forall>s. DocType r = Str s \<longrightarrow>
           (\<exists>v. short = Str v
              \<and> ((\<exists>pre t post. parenthesized s pre t post) \<longrightarrow>
                   (\<exists>pre post. parenthesized s pre v post
                      \<and> (\<forall>pre' t' post'. parenthesized s pre' t' post'
                            \<longrightarrow> length pre \<le> length pre')))
              \<and> (\<not> (\<exists>pre t post. parenthesized s pre t post) \<longrightarrow> v = s)))
       \<and> (DocType r = Undefined \<or> DocType r = Null \<longrightarrow> short = DocType r))"
  have ex: "\<exists>short. docTypeShortOf (DocType r) = Inr short \<and> Q short"
    using assms
  proof (elim disjE exE)
    assume "DocType r = Undefined"
    then show ?thesis by (simp add: Q_def)
  next
    assume "DocType r = Null"
    then show ?thesis by (simp add: Q_def)
  next
    fix s assume s: "DocType r = Str s"
    from docTypeShort_string [of s] obtain v where
      v1: "docTypeShortOf (Str s) = Inr (Str v)" and
      v2: "(\<exists>pre t post. parenthesized s pre t post) \<longrightarrow>
          (\<exists>pre post. parenthesized s pre v post
             \<and> (\<forall>pre' t' post'. parenthesized s pre' t' post' \<longrightarrow> length pre \<le> length pre'))" and
      v3: "\<not> (\<exists>pre t post. parenthesized s pre t post) \<longrightarrow> v = s"
      by blast
    have "Q (Str v)"
      unfolding Q_def s using v2 v3 by simp
    with v1 s show ?thesis by auto
  qed
  then obtain short where short: "docTypeShortOf (DocType r) = Inr short" and q: "Q short"
    by blast
  define doc where "doc =
              \<lparr> p_instrumentNumber = Instrument r,
                p_grantors = js_or (PartiesOne r) (Arr []),
                p_grantees = js_or (PartiesTwo r) (Arr []),
                p_recordDate = formatDate (RecordDate r),
                p_recordTimestamp = RecordDate r,
                p_docType = DocType r,
                p_docTypeShort = short,
                p_legalDescription = Legal r,
                p_salesPrice = SalesPrice r,
                p_pageCount = PageCount r,
                p_documentId = ID r,
                p_uuid = UUID r,
                p_bookNum = BookNum r,
                p_pageNum = PageNum r \<rparr>"
  have p: "parseRecord formatDate r = Inr doc"
    by (simp add: parseRecord_def short doc_def)
  have f1: "p_grantors doc = (if truthy (PartiesOne r) then PartiesOne r else Arr [])"
    by (simp add: doc_def js_or_def)
  have f2: "p_grantees doc = (if truthy (PartiesTwo r) then PartiesTwo r else Arr [])"
    by (simp add: doc_def js_or_def)
  have f3: "PartiesOne r = Undefined \<longrightarrow> p_grantors doc = Arr []"
    by (simp add: doc_def js_or_def)
  have f4: "PartiesTwo r = Undefined \<longrightarrow> p_grantees doc = Arr []"
    by (simp add: doc_def js_or_def)
  have g: "p_instrumentNumber doc = Instrument r" "p_recordTimestamp doc = RecordDate r"
    "p_recordDate doc = formatDate (RecordDate r)" "p_docType doc = DocType r"
    "p_legalDescription doc = Legal r" "p_salesPrice doc = SalesPrice r"
    "p_pageCount doc = PageCount r" "p_documentId doc = ID r" "p_uuid doc = UUID r"
    "p_bookNum doc = BookNum r" "p_pageNum doc = PageNum r"
    by (simp_all add: doc_def)
  have "p_docTypeShort doc = short" by (simp add: doc_def)
  with q have h: "Q (p_docTypeShort doc)" by simp
  note h1 = h [unfolded Q_def, THEN conjunct1] and h2 = h [unfolded Q_def, THEN conjunct2]
  show ?thesis
    by (intro exI [of _ doc] conjI) (fact p f1 f2 f3 f4 g h1 h2)+
qed


text \<open>
  C9 as stated fails on a record whose \<open>DocType\<close> is a number: the optional chain guards
  only against an absent value, the number has no \<open>match\<close> method, and the call raises.
\<close>

theorem parseRecord_total_counterexample:
  "parseRecord plainDate (blankRecord \<lparr> DocType := Num 5 \<rparr>) = Inl TypeError"
  by (simp add: parseRecord_def blankRecord_def)

theorem parseRecord_total_witness:
  "(DocType (blankRecord \<lparr> DocType := Str TAX_DEED \<rparr>) = Undefined
      \<or> DocType (blankRecord \<lparr> DocType := Str TAX_DEED \<rparr>) = Null
      \<or> (\<exists>s. DocType (blankRecord \<lparr> DocType := Str TAX_DEED \<rparr>) = Str s))
   \<and> (\<exists>doc. parseRecord plainDate (blankRecord \<lparr> DocType := Str TAX_DEED \<rparr>) = Inr doc
         \<and> p_grantors doc = Arr [] \<and> p_grantees doc = Arr []
         \<and> p_salesPrice doc = Undefined \<and> p_docType doc = Str TAX_DEED)
   \<and> parseRecord plainDate (blankRecord \<lparr> DocType := Str TAX_DEED \<rparr>)
       = Inr \<lparr> p_instrumentNumber = Undefined, p_grantors = Arr [], p_grantees = Arr [],
               p_recordDate = ''undefined'', p_recordTimestamp = Undefined,
               p_docType = Str ''(TAXDEED) TAX DEED'', p_docTypeShort = Str ''TAXDEED'',
               p_legalDescription = Undefined, p_salesPrice = Undefined,
               p_pageCount = Undefined, p_documentId = Undefined, p_uuid = Undefined,
               p_bookNum = Undefined, p_pageNum = Undefined \<rparr>"
proof -
  let ?r = "blankRecord \<lparr> DocType := Str TAX_DEED \<rparr>"
  have h: "DocType ?r = Undefined \<or> DocType ?r = Null \<or> (\<exists>s. DocType ?r = Str s)"
    by simp
  have r: "PartiesOne ?r = Undefined" "PartiesTwo ?r = Undefined" "SalesPrice ?r = Undefined"
    "DocType ?r = Str TAX_DEED"
    by (simp_all add: blankRecord_def)
  from parseRecord_total [OF h, of plainDate] obtain doc where
    d: "parseRecord plainDate ?r = Inr doc"
      "PartiesOne ?r = Undefined \<longrightarrow> p_grantors doc = Arr []"
      "PartiesTwo ?r = Undefined \<longrightarrow> p_grantees doc = Arr []"
      "p_salesPrice doc = SalesPrice ?r" "p_docType doc = DocType ?r"
    by blast
  with r have e: "\<exists>doc. parseRecord plainDate ?r = Inr doc
         \<and> p_grantors doc = Arr [] \<and> p_grantees doc = Arr []
         \<and> p_salesPrice doc = Undefined \<and> p_docType doc = Str TAX_DEED"
    by auto
  have v: "parseRecord plainDate ?r
       = Inr \<lparr> p_instrumentNumber = Undefined, p_grantors = Arr [], p_grantees = Arr [],
               p_recordDate = ''undefined'', p_recordTimestamp = Undefined,
               p_docType = Str ''(TAXDEED) TAX DEED'', p_docTypeShort = Str ''TAXDEED'',
               p_legalDescription = Undefined, p_salesPrice = Undefined,
               p_pageCount = Undefined, p_documentId = Undefined, p_uuid = Undefined,
               p_bookNum = Undefined, p_pageNum = Undefined \<rparr>"
    by (simp add: parseRecord_def blankRecord_def TAX_DEED_def js_or_def plainDate_def)
  from h e v show ?thesis by blast
qed


section \<open>The flag engine on parsed records\<close>

lemma error_is_TypeError: "(e :: error) = TypeError"
  by (cases e)

lemma filterE_raises:
  "d \<in> set ps \<Longrightarrow> p d = Inl TypeError \<Longrightarrow> filterE p ps = Inl TypeError"
proof (induction ps)
  case Nil
  then show ?case by simp
next
  case (Cons x ps)
  show ?case
  proof (cases "p x")
    case (Inl e)
    then show ?thesis by (simp add: error_is_TypeError [of e])
  next
    case (Inr b)
    with Cons.prems have "d \<in> set ps" by auto
    with Cons have "filterE p ps = Inl TypeError" by simp
    with Inr show ?thesis by simp
  qed
qed

lemma taxLienTest_absent:
  "p_docTypeShort d \<noteq> Str ''LNCORPTX'' \<Longrightarrow> p_docType d = Undefined \<or> p_docType d = Null
     \<Longrightarrow> taxLienTest d = Inl TypeError"
  by (auto simp: taxLienTest_def)

lemma identifyFlagsOnParsed_raises:
  assumes "d \<in> set ps" and "p_docTypeShort d \<noteq> Str ''LNCORPTX''"
    and "p_docType d = Undefined \<or> p_docType d = Null"
  shows "identifyFlagsOnParsed ps = Some (Inl TypeError)"
proof -
  have "taxLienTest d = Inl TypeError" using assms(2,3) by (rule taxLienTest_absent)
  with assms(1) have "filterE taxLienTest ps = Inl TypeError" by (rule filterE_raises)
  then show ?thesis by (simp add: identifyFlagsOnParsed_def)
qed

lemma parseRecord_absent:
  assumes "DocType r = Undefined \<or> DocType r = Null"
  shows "\<exists>p. parseRecord formatDate r = Inr p \<and> p_docType p = DocType r
           \<and> p_docTypeShort p = DocType r"
  using assms by (auto simp: parseRecord_def)

lemma mapE_member:
  "mapE f xs = Inr ys \<Longrightarrow> x \<in> set xs \<Longrightarrow> \<exists>y \<in> set ys. f x = Inr y"
proof (induction xs arbitrary: ys)
  case Nil
  then show ?case by simp
next
  case (Cons a xs)
  from Cons.prems(1) obtain y ys' where
    a: "f a = Inr y" and r: "mapE f xs = Inr ys'" and ys: "ys = y # ys'"
    by (auto split: sum.splits)
  show ?case
  proof (cases "x = a")
    case True
    with a ys show ?thesis by simp
  next
    case False
    with Cons.prems(2) have "x \<in> set xs" by simp
    from Cons.IH [OF r this] ys show ?thesis by auto
  qed
qed

text \<open>
  Whenever the search returns a record without \<open>DocType\<close> among records that
  \<open>parseRecord\<close> accepts, \<open>identifyFlags\<close> raises a TypeError, whatever else was returned.
\<close>

lemma flagsOfSearch_raises:
  assumes "mapE (parseRecord formatDate) results = Inr parsed"
    and "r \<in> set results" and "DocType r = Undefined \<or> DocType r = Null"
  shows "flagsOfSearch formatDate results = Some (Inl TypeError)"
proof -
  from mapE_member [OF assms(1,2)] obtain p where
    p: "p \<in> set parsed" "parseRecord formatDate r = Inr p" by blast
  from parseRecord_absent [OF assms(3), of formatDate] p(2)
  have t: "p_docType p = DocType r" "p_docTypeShort p = DocType r" by auto
  with assms(3) have "p_docTypeShort p \<noteq> Str ''LNCORPTX''"
    "p_docType p = Undefined \<or> p_docType p = Null" by auto
  with p(1) have "identifyFlagsOnParsed parsed = Some (Inl TypeError)"
    by (rule identifyFlagsOnParsed_raises)
  with assms(1) show ?thesis by (simp add: flagsOfSearch_def)
qed

text \<open>On Documents of the data model the tax-lien filter does not raise, and the flags are
  those of \<open>identifyFlags\<close>.\<close>

lemma asDocument_label: "asDocument p = Some d \<Longrightarrow> p_docType p = Str (docType d)"
  by (cases "p_docType p") (auto simp: asDocument_def split: option.splits)

lemma filterE_documents:
  "those (map asDocument ps) = Some docs \<Longrightarrow> \<exists>ys. filterE taxLienTest ps = Inr ys"
proof (induction ps arbitrary: docs)
  case Nil
  then show ?case by simp
next
  case (Cons p ps)
  from Cons.prems obtain d ds where
    d: "asDocument p = Some d" and ds: "those (map asDocument ps) = Some ds"
    by (auto split: option.splits)
  from asDocument_label [OF d] have "\<exists>b. taxLienTest p = Inr b"
    by (auto simp: taxLienTest_def)
  moreover from Cons.IH [OF ds] obtain ys where "filterE taxLienTest ps = Inr ys" by blast
  ultimately show ?case by auto
qed

lemma identifyFlagsOnParsed_documents:
  "those (map asDocument ps) = Some docs \<Longrightarrow>
     identifyFlagsOnParsed ps = Some (Inr (identifyFlags docs))"
  using filterE_documents [of ps docs] by (auto simp: identifyFlagsOnParsed_def)

lemma parsed_examples:
  "parseRecord plainDate taxDeedRecord =
     Inr \<lparr> p_instrumentNumber = Num 5, p_grantors = Arr [], p_grantees = Arr [],
           p_recordDate = ''250'', p_recordTimestamp = Num 250,
           p_docType = Str ''(TAXDEED) TAX DEED'', p_docTypeShort = Str ''TAXDEED'',
           p_legalDescription = Undefined, p_salesPrice = Undefined,
           p_pageCount = Undefined, p_documentId = Undefined, p_uuid = Undefined,
           p_bookNum = Undefined, p_pageNum = Undefined \<rparr>"
  "parseRecord plainDate untypedRecord =
     Inr \<lparr> p_instrumentNumber = Num 6, p_grantors = Arr [], p_grantees = Arr [],
           p_recordDate = ''100'', p_recordTimestamp = Num 100,
           p_docType = Undefined, p_docTypeShort = Undefined,
           p_legalDescription = Undefined, p_salesPrice = Undefined,
           p_pageCount = Undefined, p_documentId = Undefined, p_uuid = Undefined,
           p_bookNum = Undefined, p_pageNum = Undefined \<rparr>"
  by (simp_all add: parseRecord_def taxDeedRecord_def untypedRecord_def blankRecord_def
      TAX_DEED_def js_or_def plainDate_def show_int_def decimal.simps)

text \<open>
  C10. The claim promises the tax_lien flag for every input that contains a document whose
  \<open>docType\<close> contains \<open>TAX\<close>. The search result of a tax deed alone gives exactly that flag,
  of severity high. The search result of the tax deed and a record without \<open>DocType\<close>,
  in either order, is parsed without error, and then the tax-lien filter of
  \<open>identifyFlags\<close> calls \<open>includes\<close> on the absent \<open>docType\<close>: a TypeError, and no flag.
\<close>

theorem tax_flag_raises:
  "map_sum id (map p_docType) (mapE (parseRecord plainDate) [taxDeedRecord, untypedRecord])
     = Inr [Str TAX_DEED, Undefined]
   \<and> js_includes TAX_DEED ''TAX''
   \<and> flagsOfSearch plainDate [taxDeedRecord, untypedRecord] = Some (Inl TypeError)
   \<and> flagsOfSearch plainDate [untypedRecord, taxDeedRecord] = Some (Inl TypeError)
   \<and> map_option (map_sum id (map type)) (flagsOfSearch plainDate [taxDeedRecord])
       = Some (Inr [''tax_lien''])
   \<and> map_option (map_sum id (map severity)) (flagsOfSearch plainDate [taxDeedRecord])
       = Some (Inr [''high''])"
proof -
  have a: "map_sum id (map p_docType) (mapE (parseRecord plainDate) [taxDeedRecord, untypedRecord])
     = Inr [Str TAX_DEED, Undefined]"
    by (simp add: parsed_examples TAX_DEED_def)
  have b: "js_includes TAX_DEED ''TAX''" by (simp add: TAX_DEED_def)
  have u: "DocType untypedRecord = Undefined \<or> DocType untypedRecord = Null"
    by (simp add: untypedRecord_def blankRecord_def)
  have c: "flagsOfSearch plainDate [taxDeedRecord, untypedRecord] = Some (Inl TypeError)"
    by (rule flagsOfSearch_raises [OF _ _ u]) (simp_all add: parsed_examples)
  have d: "flagsOfSearch plainDate [untypedRecord, taxDeedRecord] = Some (Inl TypeError)"
    by (rule flagsOfSearch_raises [OF _ _ u]) (simp_all add: parsed_examples)
  have e: "flagsOfSearch plainDate [taxDeedRecord]
      = Some (Inr (identifyFlags
          [\<lparr> instrumentNumber = Num 5, grantors = [], grantees = [], recordDate = ''250'',
             recordTimestamp = 250, docType = ''(TAXDEED) TAX DEED'', docTypeShort = ''TAXDEED'',
             legalDescription = Undefined, salesPrice = Undefined, pageCount = Undefined,
             documentId = Undefined, uuid = Undefined, bookNum = Undefined,
             pageNum = Undefined, extractedData = None \<rparr>]))"
    by (simp add: flagsOfSearch_def parsed_examples identifyFlagsOnParsed_documents
        asDocument_def)
  have f: "map type (identifyFlags
          [\<lparr> instrumentNumber = Num 5, grantors = [], grantees = [], recordDate = ''250'',
             recordTimestamp = 250, docType = ''(TAXDEED) TAX DEED'', docTypeShort = ''TAXDEED'',
             legalDescription = Undefined, salesPrice = Undefined, pageCount = Undefined,
             documentId = Undefined, uuid = Undefined, bookNum = Undefined,
             pageNum = Undefined, extractedData = None \<rparr>]) = [''tax_lien'']"
    by (simp add: identifyFlags_def Let_def)
  have g: "map severity (identifyFlags
          [\<lparr> instrumentNumber = Num 5, grantors = [], grantees = [], recordDate = ''250'',
             recordTimestamp = 250, docType = ''(TAXDEED) TAX DEED'', docTypeShort = ''TAXDEED'',
             legalDescription = Undefined, salesPrice = Undefined, pageCount = Undefined,
             documentId = Undefined, uuid = Undefined, bookNum = Undefined,
             pageNum = Undefined, extractedData = None \<rparr>]) = [''high'']"
    by (simp add: identifyFlags_def Let_def)
  from a b c d show ?thesis by (simp add: e f g)
qed


end
